theory Spec2Isabelle
  imports Complex_Main
begin

section \<open>Python values and exceptions\<close>

text \<open>
  The payloads handled by \<^verbatim>\<open>script.py\<close> are the results of \<^verbatim>\<open>r.json()\<close>: dictionaries,
  lists, strings, numbers, booleans and \<^verbatim>\<open>None\<close>. A dictionary is an association list whose
  first binding of a key is the one Python sees. Strings are lists of characters (code
  points below 256). A float is an IEEE double: a finite value, given by the real number it
  equals, an infinity or NaN (\<^verbatim>\<open>r.json()\<close> accepts the literals \<^verbatim>\<open>Infinity\<close> and \<^verbatim>\<open>NaN\<close>).
\<close>

datatype pyfloat = Finite real | PosInf | NegInf | NaN

datatype pyval =
    PNone
  | PBool bool
  | PInt int
  | PFloat pyfloat
  | PStr string
  | PList "pyval list"
  | PDict "(string \<times> pyval) list"

text \<open>
  The two handlers of the routes tell \<^verbatim>\<open>requests.HTTPError\<close> (which carries the response's
  integer status code and its body text) from every other exception.
\<close>

datatype exn =
    HTTPError int string
  | RuntimeError string
  | TypeError
  | AttributeError
  | KeyError
  | IndexError
  | ValueError
  | OverflowError
  | LibraryError string

text \<open>Python's truth value of an object, as tested by \<^verbatim>\<open>if x:\<close>, \<^verbatim>\<open>not x\<close> and \<^verbatim>\<open>x or y\<close>.\<close>

fun truthy :: "pyval \<Rightarrow> bool" where
  "truthy PNone = False"
| "truthy (PBool b) = b"
| "truthy (PInt n) = (n \<noteq> 0)"
| "truthy (PFloat f) = (f \<noteq> Finite 0)"
| "truthy (PStr s) = (s \<noteq> [])"
| "truthy (PList xs) = (xs \<noteq> [])"
| "truthy (PDict kvs) = (kvs \<noteq> [])"

definition py_or :: "pyval \<Rightarrow> pyval \<Rightarrow> pyval" where
  "py_or x y = (if truthy x then x else y)"

text \<open>
  The truth value of an optional string (\<^verbatim>\<open>os.getenv\<close> gives a string or \<^verbatim>\<open>None\<close>, and
  \<^verbatim>\<open>search_type\<close> is \<^verbatim>\<open>str | None\<close>): false for \<^verbatim>\<open>None\<close> and for the empty string.
\<close>

definition opt_truthy :: "string option \<Rightarrow> bool" where
  "opt_truthy v = (case v of None \<Rightarrow> False | Some s \<Rightarrow> s \<noteq> [])"

text \<open>\<^verbatim>\<open>str(n)\<close> of an integer, as the f-string \<^verbatim>\<open>f"|{num}"\<close> prints it.\<close>

definition digit_char :: "nat \<Rightarrow> char" where
  "digit_char d = ''0123456789'' ! d"

fun str_nat :: "nat \<Rightarrow> string" where
  "str_nat n = (if n < 10 then [digit_char n] else str_nat (n div 10) @ [digit_char (n mod 10)])"

definition str_int :: "int \<Rightarrow> string" where
  "str_int i = (if i < 0 then CHR ''-'' # str_nat (nat (- i)) else str_nat (nat i))"

section \<open>Response cache and usage counter\<close>

type_synonym CacheKey = "string \<times> int \<times> string"

type_synonym cache = "CacheKey \<rightharpoonup> real \<times> pyval"

definition CACHE_TTL_SEC :: real where
  "CACHE_TTL_SEC = 60"

text \<open>
  \<^verbatim>\<open>_cache_get\<close>, with the reading of \<^verbatim>\<open>time.time()\<close> as its first argument. The stored item
  is a pair, which is never falsy, so \<^verbatim>\<open>not item\<close> holds exactly when the key is missing.
  The result \<^verbatim>\<open>None\<close> is \<^const>\<open>PNone\<close>.
\<close>

definition cache_get :: "real \<Rightarrow> CacheKey \<Rightarrow> cache \<Rightarrow> pyval \<times> cache" where
  "cache_get now key c =
     (case c key of
        None \<Rightarrow> (PNone, c)
      | Some (ts, payload) \<Rightarrow>
          if now - ts > CACHE_TTL_SEC then (PNone, c(key := None))
          else (payload, c))"

text \<open>\<^verbatim>\<open>_cache_set\<close>, with the reading of \<^verbatim>\<open>time.time()\<close> as its first argument.\<close>

definition cache_set :: "real \<Rightarrow> CacheKey \<Rightarrow> pyval \<Rightarrow> cache \<Rightarrow> cache" where
  "cache_set now key v c = c(key \<mapsto> (now, v))"

record request_counter =
  date :: string
  count :: int

text \<open>
  Lines 82 to 86 of \<^verbatim>\<open>google_search\<close>: the counter update, with the value of
  \<^verbatim>\<open>time.strftime("%Y-%m-%d")\<close> as its first argument.
\<close>

definition record_call :: "string \<Rightarrow> request_counter \<Rightarrow> request_counter" where
  "record_call today rc =
     (let rc1 = (if date rc \<noteq> today then rc\<lparr>date := today, count := 0\<rparr> else rc)
      in rc1\<lparr>count := count rc1 + 1\<rparr>)"

section \<open>Search client\<close>

text \<open>The query parameters of one call to the search endpoint.\<close>

record search_params =
  p_key :: string
  p_cx :: string
  p_q :: string
  p_num :: int
  p_start :: int
  p_searchType :: "string option"

text \<open>
  An outbound call: to the search endpoint (line 77), to the place-search endpoint with
  its query and \<^verbatim>\<open>User-Agent\<close> (line 107), or to the summary endpoint with its URL (line 184).
\<close>

datatype call =
    SearchCall search_params
  | PlaceCall string string
  | SummaryCall string

text \<open>
  The process-wide state: the cache, the counter, and the log of the outbound calls made
  (the effect of \<^verbatim>\<open>requests.get\<close>).
\<close>

record state =
  cache :: cache
  counter :: request_counter
  sent :: "call list"

text \<open>
  What the surroundings decide during one request: the environment variables, the clock
  readings, and the outcome of each outbound call (an exception or the decoded body), with
  the library functions the routes call on strings.
\<close>

record env =
  API_KEY :: "string option"
  CX :: "string option"
  MAIL :: "string option"
  time_get :: real
  time_set :: real
  today :: string
  search_api :: "search_params \<Rightarrow> exn + pyval"
  osm_api :: "string \<Rightarrow> string \<Rightarrow> exn + pyval"
  wiki_api :: "string \<Rightarrow> exn + pyval"
  urlparse :: "string \<Rightarrow> exn + string \<times> string"
  unquote :: "string \<Rightarrow> string"
  int_of_str :: "string \<Rightarrow> int option"
  float_of_str :: "string \<Rightarrow> pyfloat option"

text \<open>Lines 59, 60 and 62 of \<^verbatim>\<open>google_search\<close>.\<close>

definition clamp_start :: "int \<Rightarrow> int" where
  "clamp_start start_index = max 1 (min start_index 91)"

definition clamp_num :: "int \<Rightarrow> int" where
  "clamp_num num = max 1 (min num 10)"

definition kind_or_web :: "string option \<Rightarrow> string" where
  "kind_or_web search_type = (case search_type of None \<Rightarrow> ''web'' | Some s \<Rightarrow> if s \<noteq> [] then s else ''web'')"

definition cache_key :: "string \<Rightarrow> int \<Rightarrow> int \<Rightarrow> string option \<Rightarrow> CacheKey" where
  "cache_key query start_index num search_type =
     (query @ ''|'' @ str_int (clamp_num num), clamp_start start_index, kind_or_web search_type)"

definition missing_env :: string where
  "missing_env = ''Variables d'' @ [CHR 0x27] @ ''environnement manquantes: GOOGLE_API_KEY et GOOGLE_CSE_ID''"

text \<open>
  Lines 67 to 76: the parameters of the request. They are built only after the test that
  the credentials are set.
\<close>

definition search_request :: "env \<Rightarrow> string \<Rightarrow> int \<Rightarrow> int \<Rightarrow> string option \<Rightarrow> search_params" where
  "search_request e query start_index num search_type =
     \<lparr>p_key = the (API_KEY e), p_cx = the (CX e), p_q = query,
      p_num = clamp_num num, p_start = clamp_start start_index,
      p_searchType = (if opt_truthy search_type then search_type else None)\<rparr>"

text \<open>
  \<^verbatim>\<open>google_search\<close>. The outcome of lines 77 to 79 (\<^verbatim>\<open>requests.get\<close>, \<^verbatim>\<open>raise_for_status\<close>,
  \<^verbatim>\<open>r.json()\<close>) is \<^const>\<open>search_api\<close> of the parameters sent.
\<close>

definition google_search ::
  "env \<Rightarrow> string \<Rightarrow> int \<Rightarrow> int \<Rightarrow> string option \<Rightarrow> state \<Rightarrow> (exn + pyval) \<times> state" where
  "google_search e query start_index num search_type s =
     (if \<not> opt_truthy (API_KEY e) \<or> \<not> opt_truthy (CX e) then (Inl (RuntimeError missing_env), s)
      else
        let key = cache_key query start_index num search_type;
            (cached, c1) = cache_get (time_get e) key (cache s);
            s1 = s\<lparr>cache := c1\<rparr>
        in if truthy cached then (Inr cached, s1)
           else
             let params = search_request e query start_index num search_type;
                 s2 = s1\<lparr>sent := sent s1 @ [SearchCall params]\<rparr>
             in case search_api e params of
                  Inl err \<Rightarrow> (Inl err, s2)
                | Inr data \<Rightarrow>
                    (Inr data,
                     s2\<lparr>counter := record_call (today e) (counter s2),
                        cache := cache_set (time_set e) key data (cache s2)\<rparr>))"

text \<open>
  The call finds no usable entry: \<^verbatim>\<open>cached\<close> is falsy at line 64. The calls sent during one
  call of \<^verbatim>\<open>google_search\<close> are those it adds to the log.
\<close>

definition cache_miss :: "env \<Rightarrow> string \<Rightarrow> int \<Rightarrow> int \<Rightarrow> string option \<Rightarrow> state \<Rightarrow> bool" where
  "cache_miss e query start_index num search_type s =
     (\<not> truthy (fst (cache_get (time_get e) (cache_key query start_index num search_type) (cache s))))"

definition configured :: "env \<Rightarrow> bool" where
  "configured e = (opt_truthy (API_KEY e) \<and> opt_truthy (CX e))"

definition calls_of_search :: "env \<Rightarrow> string \<Rightarrow> int \<Rightarrow> int \<Rightarrow> string option \<Rightarrow> state \<Rightarrow> call list" where
  "calls_of_search e query start_index num search_type s =
     drop (length (sent s)) (sent (snd (google_search e query start_index num search_type s)))"

section \<open>Operations of Python objects\<close>

text \<open>\<^verbatim>\<open>x.get(k, d)\<close>: only a dictionary has the method.\<close>

definition dict_get :: "(string \<times> pyval) list \<Rightarrow> string \<Rightarrow> pyval \<Rightarrow> pyval" where
  "dict_get kvs k d = (case map_of kvs k of None \<Rightarrow> d | Some v \<Rightarrow> v)"

fun py_get :: "pyval \<Rightarrow> string \<Rightarrow> pyval \<Rightarrow> exn + pyval" where
  "py_get (PDict kvs) k d = Inr (dict_get kvs k d)"
| "py_get _ k d = Inl AttributeError"

text \<open>
  \<^verbatim>\<open>x[0]\<close>: the first element of a list, the first character of a string; a dictionary
  decoded from JSON has string keys only, so the key \<^verbatim>\<open>0\<close> is missing.
\<close>

fun py_first :: "pyval \<Rightarrow> exn + pyval" where
  "py_first (PList []) = Inl IndexError"
| "py_first (PList (x # xs)) = Inr x"
| "py_first (PStr []) = Inl IndexError"
| "py_first (PStr (c # cs)) = Inr (PStr [c])"
| "py_first (PDict kvs) = Inl KeyError"
| "py_first _ = Inl TypeError"

text \<open>
  The elements a \<^verbatim>\<open>for\<close> loop visits: the elements of a list, the characters of a string,
  the keys of a dictionary (each once, in the order of first insertion).
\<close>

fun py_iter :: "pyval \<Rightarrow> exn + pyval list" where
  "py_iter (PList xs) = Inr xs"
| "py_iter (PStr cs) = Inr (map (\<lambda>c. PStr [c]) cs)"
| "py_iter (PDict kvs) = Inr (map PStr (rev (remdups (rev (map fst kvs)))))"
| "py_iter _ = Inl TypeError"

text \<open>\<^verbatim>\<open>s + x\<close> for a string \<^verbatim>\<open>s\<close>: concatenation with a string, \<^verbatim>\<open>TypeError\<close> otherwise.\<close>

fun str_add :: "string \<Rightarrow> pyval \<Rightarrow> exn + string" where
  "str_add s (PStr t) = Inr (s @ t)"
| "str_add s _ = Inl TypeError"

definition of_opt :: "string option \<Rightarrow> pyval" where
  "of_opt v = (case v of None \<Rightarrow> PNone | Some s \<Rightarrow> PStr s)"

text \<open>\<^verbatim>\<open>x < y\<close> on floats: false as soon as one side is NaN.\<close>

fun float_less :: "pyfloat \<Rightarrow> pyfloat \<Rightarrow> bool" where
  "float_less NaN y = False"
| "float_less x NaN = False"
| "float_less (Finite a) (Finite b) = (a < b)"
| "float_less (Finite a) PosInf = True"
| "float_less (Finite a) NegInf = False"
| "float_less PosInf y = False"
| "float_less NegInf NegInf = False"
| "float_less NegInf y = True"

text \<open>The float that the literal \<^verbatim>\<open>0.3\<close> denotes: the double nearest to three tenths.\<close>

definition float_0_3 :: pyfloat where
  "float_0_3 = Finite (5404319552844595 / 18014398509481984)"

text \<open>
  \<^verbatim>\<open>float(n)\<close> of an integer: the nearest double, ties to the even significand of 53 bits;
  \<^verbatim>\<open>OverflowError\<close> from \<^verbatim>\<open>2**1024 - 2**970\<close> on, the least magnitude that rounds beyond the
  largest double.
\<close>

fun bit_length :: "nat \<Rightarrow> nat" where
  "bit_length n = (if n = 0 then 0 else Suc (bit_length (n div 2)))"

declare bit_length.simps [simp del]

definition round_to_double :: "nat \<Rightarrow> nat" where
  "round_to_double a =
     (if bit_length a \<le> 53 then a
      else
        let e = bit_length a - 53; q = a div 2 ^ e; r = a mod 2 ^ e; half = 2 ^ (e - 1)
        in (if half < r \<or> (r = half \<and> odd q) then q + 1 else q) * 2 ^ e)"

definition int_to_float :: "int \<Rightarrow> exn + pyfloat" where
  "int_to_float n =
     (if 2 ^ 1024 - 2 ^ 970 \<le> \<bar>n\<bar> then Inl OverflowError
      else Inr (Finite (if n < 0 then - real (round_to_double (nat (- n)))
                        else real (round_to_double (nat n)))))"

text \<open>
  \<^verbatim>\<open>float(x)\<close>: a float is itself, an integer is rounded, a boolean is 1.0 or 0.0, a string
  is parsed (by \<^const>\<open>float_of_str\<close>, \<^verbatim>\<open>ValueError\<close> when it is no number), anything else is
  a \<^verbatim>\<open>TypeError\<close>.
\<close>

fun py_float :: "env \<Rightarrow> pyval \<Rightarrow> exn + pyfloat" where
  "py_float e (PInt n) = int_to_float n"
| "py_float e (PFloat f) = Inr f"
| "py_float e (PBool b) = Inr (Finite (if b then 1 else 0))"
| "py_float e (PStr s) = (case float_of_str e s of None \<Rightarrow> Inl ValueError | Some f \<Rightarrow> Inr f)"
| "py_float e _ = Inl TypeError"

text \<open>
  \<^verbatim>\<open>x in S\<close> for a set \<^verbatim>\<open>S\<close> of strings: a list or a dictionary cannot be hashed, and
  only a string is equal to a string.
\<close>

fun in_str_set :: "pyval \<Rightarrow> string list \<Rightarrow> exn + bool" where
  "in_str_set (PStr s) S = Inr (s \<in> set S)"
| "in_str_set (PList xs) S = Inl TypeError"
| "in_str_set (PDict kvs) S = Inl TypeError"
| "in_str_set _ S = Inr False"

text \<open>Sequencing of computations that may raise.\<close>

definition and_then :: "exn + 'a \<Rightarrow> ('a \<Rightarrow> exn + 'b) \<Rightarrow> exn + 'b" where
  "and_then m f = (case m of Inl err \<Rightarrow> Inl err | Inr x \<Rightarrow> f x)"

section \<open>Place lookup\<close>

definition allowed_classes :: "string list" where
  "allowed_classes = [''place'', ''boundary'', ''building'', ''amenity'', ''tourism'',
     ''highway'', ''shop'', ''leisure'', ''natural'', ''historic'']"

text \<open>Lines 111 to 129: the body of the \<^verbatim>\<open>try\<close> block after the request.\<close>

definition osm_filter :: "env \<Rightarrow> pyval \<Rightarrow> exn + pyval" where
  "osm_filter e data =
     (if \<not> truthy data then Inr PNone
      else and_then (py_first data) (\<lambda>result.
           and_then (py_get result ''class'' PNone) (\<lambda>cls.
           and_then (in_str_set cls allowed_classes) (\<lambda>ok.
             if \<not> ok then Inr PNone
             else and_then (py_get result ''importance'' (PInt 0)) (\<lambda>imp.
                  and_then (py_float e imp) (\<lambda>f.
                    if float_less f float_0_3 then Inr PNone else Inr result))))))"

text \<open>
  \<^verbatim>\<open>osm_search\<close>. The header is built before the \<^verbatim>\<open>try\<close> block, so a missing \<^verbatim>\<open>MAIL\<close> raises;
  every exception of the block gives \<^verbatim>\<open>None\<close>. The outcome of lines 107 to 109 is
  \<^const>\<open>osm_api\<close> of the query and the \<^verbatim>\<open>User-Agent\<close>.
\<close>

definition osm_search :: "env \<Rightarrow> string \<Rightarrow> state \<Rightarrow> (exn + pyval) \<times> state" where
  "osm_search e query s =
     (case and_then (str_add ''MiniMetaSearch/1.0 (contact: '' (of_opt (MAIL e))) (\<lambda>h. str_add h (PStr '')''))
      of
        Inl err \<Rightarrow> (Inl err, s)
      | Inr agent \<Rightarrow>
          (case and_then (osm_api e query agent) (osm_filter e) of
             Inl err \<Rightarrow> (Inr PNone, s\<lparr>sent := sent s @ [PlaceCall query agent]\<rparr>)
           | Inr place \<Rightarrow> (Inr place, s\<lparr>sent := sent s @ [PlaceCall query agent]\<rparr>)))"

section \<open>Strings\<close>

text \<open>
  The whitespace of \<^verbatim>\<open>str.strip()\<close>, \<^verbatim>\<open>str.isspace()\<close> and of \<^verbatim>\<open>\s\<close> in a pattern on \<^verbatim>\<open>str\<close>,
  among the code points below 256: tab to carriage return, the four separators 28 to 31,
  the space, NEL and the no-break space.
\<close>

definition is_space :: "char \<Rightarrow> bool" where
  "is_space c = (of_char c \<in> {9, 10, 11, 12, 13, 28, 29, 30, 31, 32, 133, 160 :: nat})"

definition strip :: "string \<Rightarrow> string" where
  "strip s = rev (dropWhile is_space (rev (dropWhile is_space s)))"

text \<open>\<^verbatim>\<open>s.split(c)\<close> for a one-character separator: the pieces between its occurrences.\<close>

fun split_on :: "char \<Rightarrow> string \<Rightarrow> string list" where
  "split_on c [] = [[]]"
| "split_on c (x # xs) =
     (if x = c then [] # split_on c xs
      else case split_on c xs of [] \<Rightarrow> [[x]] | p # ps \<Rightarrow> (x # p) # ps)"

text \<open>\<^verbatim>\<open>sub in s\<close> for strings: \<^verbatim>\<open>sub\<close> occurs in \<^verbatim>\<open>s\<close> as a contiguous run.\<close>

fun contains :: "string \<Rightarrow> string \<Rightarrow> bool" where
  "contains [] sub = (sub = [])"
| "contains (x # xs) sub = (take (length sub) (x # xs) = sub \<or> contains xs sub)"

text \<open>\<^verbatim>\<open>xs[:n]\<close>: a negative \<^verbatim>\<open>n\<close> counts from the end.\<close>

definition slice_to :: "int \<Rightarrow> 'a list \<Rightarrow> 'a list" where
  "slice_to n xs = (if 0 \<le> n then take (nat n) xs else take (length xs - nat (- n)) xs)"

text \<open>\<^verbatim>\<open>sep.join(xs)\<close>.\<close>

fun join :: "string \<Rightarrow> string list \<Rightarrow> string" where
  "join sep [] = []"
| "join sep [x] = x"
| "join sep (x # y # ys) = x @ sep @ join sep (y # ys)"

section \<open>Summary shortener\<close>

definition is_punct :: "char \<Rightarrow> bool" where
  "is_punct c = (c = CHR ''.'' \<or> c = CHR ''!'' \<or> c = CHR ''?'')"

text \<open>
  \<^verbatim>\<open>re.split(r'(?<=[.!?])\s+', text)\<close>. A match starts at a whitespace character that
  follows one of \<^verbatim>\<open>.!?\<close> and takes the whole run of whitespace; the search goes on after
  the run, where the character before is whitespace. The first argument says whether the
  character before is one of \<^verbatim>\<open>.!?\<close>, the second is the piece read so far.
\<close>

function re_split :: "bool \<Rightarrow> string \<Rightarrow> string \<Rightarrow> string list" where
  "re_split after_punct piece [] = [piece]"
| "re_split after_punct piece (c # cs) =
     (if after_punct \<and> is_space c then piece # re_split False [] (dropWhile is_space cs)
      else re_split (is_punct c) (piece @ [c]) cs)"
  by pat_completeness auto
termination
  by (relation "measure (\<lambda>(a, p, t). length t)") (auto simp: length_dropWhile_le less_Suc_eq_le)

text \<open>\<^verbatim>\<open>shorten_extract\<close>, the function nested in \<^verbatim>\<open>home\<close> (lines 168 to 171).\<close>

definition shorten_extract :: "string \<Rightarrow> int \<Rightarrow> string" where
  "shorten_extract text max_sentences = join '' '' (slice_to max_sentences (re_split False [] text))"

section \<open>Result composer: the pieces of the web route\<close>

record result_item =
  r_title :: pyval
  r_link :: string
  r_displayLink :: pyval
  r_snippet :: pyval
  r_favicon :: string

record wiki_info =
  w_title :: pyval
  w_extract :: string
  w_thumbnail :: pyval
  w_link :: string

record address_info =
  a_road :: pyval
  a_postcode :: pyval
  a_city :: pyval
  a_country :: pyval

record place_info =
  o_display_name :: pyval
  o_lat :: pyval
  o_lon :: pyval
  o_type :: pyval
  o_address :: address_info
  o_opening_hours :: pyval

text \<open>
  Lines 157 to 166: one turn of the loop over the items. \<^const>\<open>urlparse\<close> gives the
  \<^verbatim>\<open>netloc\<close> and the \<^verbatim>\<open>path\<close> of a string. For a link that is no string, \<^verbatim>\<open>urlparse\<close> raises
  \<^verbatim>\<open>AttributeError\<close> when it is truthy and gives an empty \<^verbatim>\<open>bytes\<close> host otherwise, which the
  concatenation of line 159 refuses.
\<close>

definition make_item :: "env \<Rightarrow> pyval \<Rightarrow> exn + result_item" where
  "make_item e it =
     and_then (py_get it ''link'' (PStr ''#'')) (\<lambda>link.
       case link of
         PStr u \<Rightarrow>
           and_then (urlparse e u) (\<lambda>(domain, path).
           and_then (py_get it ''title'' (PStr ''(sans titre)'')) (\<lambda>t.
           and_then (py_get it ''displayLink'' (PStr [])) (\<lambda>d.
           and_then (py_get it ''snippet'' (PStr [])) (\<lambda>sn.
             Inr \<lparr>r_title = t, r_link = u, r_displayLink = d, r_snippet = sn,
                  r_favicon = ''https://www.google.com/s2/favicons?sz=32&domain='' @ domain\<rparr>))))
       | _ \<Rightarrow> if truthy link then Inl AttributeError else Inl TypeError)"

text \<open>The loop of lines 156 to 166: the items appended before an exception stay in the list.\<close>

fun build_results :: "env \<Rightarrow> pyval list \<Rightarrow> result_item list \<Rightarrow> exn option \<times> result_item list" where
  "build_results e [] acc = (None, acc)"
| "build_results e (it # its) acc =
     (case make_item e it of
        Inl err \<Rightarrow> (Some err, acc)
      | Inr r \<Rightarrow> build_results e its (acc @ [r]))"

text \<open>Line 181: the edition of the encyclopedia, from the host of the link.\<close>

definition wiki_lang :: "string \<Rightarrow> string" where
  "wiki_lang domain = (if domain \<noteq> [] then hd (split_on CHR ''.'' domain) else ''en'')"

text \<open>Lines 175 to 183: the URL of the summary, from the host and the path of the link.\<close>

definition wiki_url :: "env \<Rightarrow> string \<Rightarrow> string \<Rightarrow> string" where
  "wiki_url e domain path =
     ''https://'' @ wiki_lang domain @ ''.wikipedia.org/api/rest_v1/page/summary/''
       @ unquote e (last (split_on CHR ''/'' path))"

text \<open>Lines 186 to 194, for the decoded summary \<^verbatim>\<open>w\<close> and the first result.\<close>

definition summary_box :: "pyval \<Rightarrow> result_item \<Rightarrow> exn + wiki_info" where
  "summary_box w r =
     and_then (py_get w ''extract'' (r_snippet r)) (\<lambda>raw_extract.
       case raw_extract of
         PStr t \<Rightarrow>
           and_then (py_get w ''title'' (r_title r)) (\<lambda>wt.
           and_then (py_get w ''thumbnail'' (PDict [])) (\<lambda>th.
           and_then (py_get th ''source'' PNone) (\<lambda>src.
             Inr \<lparr>w_title = wt, w_extract = shorten_extract t 3, w_thumbnail = src,
                  w_link = r_link r\<rparr>)))
       | _ \<Rightarrow> Inl TypeError)"

text \<open>
  Lines 173 to 194: the encyclopedia box. The outcome of line 184 (\<^verbatim>\<open>requests.get\<close> and
  \<^verbatim>\<open>.json()\<close>) is \<^const>\<open>wiki_api\<close> of the URL; nothing around it catches an exception.
\<close>

definition wikipedia_box :: "env \<Rightarrow> result_item list \<Rightarrow> state \<Rightarrow> (exn + wiki_info option) \<times> state" where
  "wikipedia_box e rs s =
     (case rs of
        [] \<Rightarrow> (Inr None, s)
      | r # _ \<Rightarrow>
          if \<not> contains (r_link r) ''wikipedia.org'' then (Inr None, s)
          else
            (case urlparse e (r_link r) of
               Inl err \<Rightarrow> (Inl err, s)
             | Inr (domain, path) \<Rightarrow>
                 let url = wiki_url e domain path;
                     s1 = s\<lparr>sent := sent s @ [SummaryCall url]\<rparr>
                 in (case wiki_api e url of
                       Inl err \<Rightarrow> (Inl err, s1)
                     | Inr w \<Rightarrow>
                         (case summary_box w r of
                            Inl err \<Rightarrow> (Inl err, s1)
                          | Inr box \<Rightarrow> (Inr (Some box), s1)))))"

text \<open>Lines 203 to 217, for a truthy \<^verbatim>\<open>place\<close>.\<close>

definition place_fields :: "pyval \<Rightarrow> exn + place_info" where
  "place_fields place =
     and_then (py_get place ''address'' (PDict [])) (\<lambda>a0.
     and_then (py_get place ''extratags'' (PDict [])) (\<lambda>x0.
     let addr = py_or a0 (PDict []); extratags = py_or x0 (PDict []) in
     and_then (py_get place ''display_name'' PNone) (\<lambda>dn.
     and_then (py_get place ''lat'' PNone) (\<lambda>lat.
     and_then (py_get place ''lon'' PNone) (\<lambda>lon.
     and_then (py_get place ''type'' PNone) (\<lambda>ty.
     and_then (py_get addr ''road'' PNone) (\<lambda>road.
     and_then (py_get addr ''postcode'' PNone) (\<lambda>postcode.
     and_then (py_get addr ''city'' PNone) (\<lambda>c.
     and_then (if truthy c then Inr c
               else and_then (py_get addr ''town'' PNone) (\<lambda>t.
                    if truthy t then Inr t else py_get addr ''village'' PNone)) (\<lambda>city.
     and_then (py_get addr ''country'' PNone) (\<lambda>country.
     and_then (py_get extratags ''opening_hours'' PNone) (\<lambda>hours.
       Inr \<lparr>o_display_name = dn, o_lat = lat, o_lon = lon, o_type = ty,
            o_address = \<lparr>a_road = road, a_postcode = postcode, a_city = city,
                         a_country = country\<rparr>,
            o_opening_hours = hours\<rparr>))))))))))))"

text \<open>Lines 196 to 217: the place box; an exception of \<^verbatim>\<open>osm_search\<close> gives no place.\<close>

definition place_box :: "env \<Rightarrow> string \<Rightarrow> state \<Rightarrow> (exn + place_info option) \<times> state" where
  "place_box e q s =
     (case osm_search e q s of
        (r, s1) \<Rightarrow>
          let place = (case r of Inl err \<Rightarrow> PNone | Inr p \<Rightarrow> p)
          in if \<not> truthy place then (Inr None, s1)
             else (case place_fields place of
                     Inl err \<Rightarrow> (Inl err, s1)
                   | Inr box \<Rightarrow> (Inr (Some box), s1)))"

text \<open>
  Lines 219 to 226 and 273 to 280: the cursors, as (exception, \<^verbatim>\<open>next_start\<close>, \<^verbatim>\<open>prev_start\<close>).
  \<^verbatim>\<open>next_start\<close> is assigned before the previous page is read.
\<close>

definition first_start :: "pyval \<Rightarrow> exn + pyval" where
  "first_start pages = and_then (py_first pages) (\<lambda>p. py_get p ''startIndex'' PNone)"

definition cursors :: "pyval \<Rightarrow> exn option \<times> pyval \<times> pyval" where
  "cursors data =
     (case py_get data ''queries'' (PDict []) of
        Inl err \<Rightarrow> (Some err, PNone, PNone)
      | Inr (PDict qs) \<Rightarrow>
          let next_list = py_or (dict_get qs ''nextPage'' PNone) (PList []);
              prev_list = py_or (dict_get qs ''previousPage'' PNone) (PList [])
          in (case (if truthy next_list then first_start next_list else Inr PNone) of
                Inl err \<Rightarrow> (Some err, PNone, PNone)
              | Inr nxt \<Rightarrow>
                  (case (if truthy prev_list then first_start prev_list else Inr PNone) of
                     Inl err \<Rightarrow> (Some err, nxt, PNone)
                   | Inr prv \<Rightarrow> (None, nxt, prv)))
      | Inr _ \<Rightarrow> (None, PNone, PNone))"

section \<open>Result composer: the routes\<close>

text \<open>
  The value of \<^verbatim>\<open>error\<close>: a string built by the handler, or \<^verbatim>\<open>str(e)\<close> of the exception
  caught.
\<close>

datatype message = Text string | StrOf exn

record locals =
  results :: "result_item list"
  info :: pyval
  error :: "message option"
  prev_start :: pyval
  next_start :: pyval
  wiki_box :: "wiki_info option"
  osm_box :: "place_info option"

definition init_locals :: locals where
  "init_locals = \<lparr>results = [], info = PNone, error = None, prev_start = PNone,
     next_start = PNone, wiki_box = None, osm_box = None\<rparr>"

text \<open>The arguments of \<^verbatim>\<open>render_template\<close> at lines 233 to 245.\<close>

record page =
  template :: string
  pg_q :: string
  pg_vars :: locals
  pg_mode :: string
  pg_count :: int

text \<open>The character U+2026 that ends the message, in UTF-8.\<close>

definition ellipsis :: string where
  "ellipsis = [CHR 0xE2, CHR 0x80, CHR 0xA6]"

text \<open>
  Lines 229 and 283: the right-hand side of the assignment in the handler of
  \<^verbatim>\<open>requests.HTTPError\<close>. \<^verbatim>\<open>status_code\<close> is an integer.
\<close>

definition http_error_text :: "int \<Rightarrow> string \<Rightarrow> exn + string" where
  "http_error_text status_code body =
     and_then (str_add ''HTTP '' (PInt status_code)) (\<lambda>a.
     and_then (str_add a (PStr '': '')) (\<lambda>b.
     and_then (str_add b (PStr (slice_to 200 body))) (\<lambda>c.
       str_add c (PStr ellipsis))))"

text \<open>
  The two \<^verbatim>\<open>except\<close> clauses (lines 228 to 231 and 282 to 285): the new value of
  \<^verbatim>\<open>error\<close>, or the exception raised inside the handler.
\<close>

fun handler :: "exn \<Rightarrow> exn + message" where
  "handler (HTTPError status_code body) = and_then (http_error_text status_code body) (\<lambda>m. Inr (Text m))"
| "handler err = Inr (StrOf err)"

text \<open>
  Lines 152 to 226: the body of the \<^verbatim>\<open>try\<close> block, from the initial locals, as the
  exception that leaves it (if any) and the locals at that point.
\<close>

definition home_try :: "env \<Rightarrow> string \<Rightarrow> int \<Rightarrow> state \<Rightarrow> (exn option \<times> locals) \<times> state" where
  "home_try e q start_index s =
     (case google_search e q start_index 10 None s of
        (Inl err, s1) \<Rightarrow> ((Some err, init_locals), s1)
      | (Inr data, s1) \<Rightarrow>
      (case py_get data ''searchInformation'' PNone of
        Inl err \<Rightarrow> ((Some err, init_locals), s1)
      | Inr i0 \<Rightarrow>
      let l1 = init_locals\<lparr>info := py_or i0 (PDict [])\<rparr> in
      (case and_then (py_get data ''items'' PNone) (\<lambda>i1. py_iter (py_or i1 (PList []))) of
        Inl err \<Rightarrow> ((Some err, l1), s1)
      | Inr items \<Rightarrow>
      (case build_results e items [] of
        (Some err, rs) \<Rightarrow> ((Some err, l1\<lparr>results := rs\<rparr>), s1)
      | (None, rs) \<Rightarrow>
      let l2 = l1\<lparr>results := rs\<rparr> in
      (case wikipedia_box e rs s1 of
        (Inl err, s2) \<Rightarrow> ((Some err, l2), s2)
      | (Inr wb, s2) \<Rightarrow>
      let l3 = l2\<lparr>wiki_box := wb\<rparr> in
      (case place_box e q s2 of
        (Inl err, s3) \<Rightarrow> ((Some err, l3), s3)
      | (Inr ob, s3) \<Rightarrow>
      let l4 = l3\<lparr>osm_box := ob\<rparr> in
      (case cursors data of
        (err, nxt, prv) \<Rightarrow> ((err, l4\<lparr>next_start := nxt, prev_start := prv\<rparr>), s3))))))))"

text \<open>
  \<^verbatim>\<open>home\<close>, for the values of the request arguments \<^verbatim>\<open>q\<close> and \<^verbatim>\<open>start\<close> (with their
  defaults). \<^const>\<open>int_of_str\<close> is \<^verbatim>\<open>int\<close> on a string, \<^const>\<open>None\<close> for \<^verbatim>\<open>ValueError\<close>. The
  result is the page rendered, or the exception that leaves the function.
\<close>

definition home :: "env \<Rightarrow> string \<Rightarrow> string \<Rightarrow> state \<Rightarrow> (exn + page) \<times> state" where
  "home e q_arg start s =
     (let q = strip q_arg;
          start_index = (case int_of_str e start of None \<Rightarrow> 1 | Some i \<Rightarrow> i);
          render = (\<lambda>l s'. \<lparr>template = ''links.html'', pg_q = q, pg_vars = l, pg_mode = ''web'',
                                pg_count = count (counter s')\<rparr>)
      in if q = [] then (Inr (render init_locals s), s)
         else
           (case home_try e q start_index s of
              ((None, l), s1) \<Rightarrow> (Inr (render l s1), s1)
            | ((Some err, l), s1) \<Rightarrow>
                (case handler err of
                   Inl err' \<Rightarrow> (Inl err', s1)
                 | Inr m \<Rightarrow> (Inr (render (l\<lparr>error := Some m\<rparr>) s1), s1))))"

record image_item =
  im_link :: pyval
  im_thumbnail :: pyval
  im_context :: pyval

record image_locals =
  i_results :: "image_item list"
  i_error :: "message option"
  i_prev_start :: pyval
  i_next_start :: pyval

definition init_image_locals :: image_locals where
  "init_image_locals = \<lparr>i_results = [], i_error = None, i_prev_start = PNone, i_next_start = PNone\<rparr>"

record image_page =
  i_template :: string
  i_q :: string
  i_vars :: image_locals
  i_mode :: string
  i_count :: int

text \<open>Lines 267 to 271: one turn of the loop over the image items.\<close>

definition make_image :: "pyval \<Rightarrow> exn + image_item" where
  "make_image it =
     and_then (py_get it ''link'' (PStr ''#'')) (\<lambda>link.
     and_then (py_get it ''image'' (PDict [])) (\<lambda>img.
     and_then (py_get it ''link'' (PStr [])) (\<lambda>fallback.
     and_then (py_get img ''thumbnailLink'' fallback) (\<lambda>th.
     and_then (py_get img ''contextLink'' fallback) (\<lambda>ctx.
       Inr \<lparr>im_link = link, im_thumbnail = th, im_context = ctx\<rparr>)))))"

fun build_images :: "pyval list \<Rightarrow> image_item list \<Rightarrow> exn option \<times> image_item list" where
  "build_images [] acc = (None, acc)"
| "build_images (it # its) acc =
     (case make_image it of
        Inl err \<Rightarrow> (Some err, acc)
      | Inr r \<Rightarrow> build_images its (acc @ [r]))"

text \<open>Lines 264 to 280: the body of the \<^verbatim>\<open>try\<close> block of \<^verbatim>\<open>images\<close>.\<close>

definition images_try :: "env \<Rightarrow> string \<Rightarrow> int \<Rightarrow> state \<Rightarrow> (exn option \<times> image_locals) \<times> state" where
  "images_try e q start_index s =
     (case google_search e q start_index 10 (Some ''image'') s of
        (Inl err, s1) \<Rightarrow> ((Some err, init_image_locals), s1)
      | (Inr data, s1) \<Rightarrow>
      (case and_then (py_get data ''items'' PNone) (\<lambda>i1. py_iter (py_or i1 (PList []))) of
        Inl err \<Rightarrow> ((Some err, init_image_locals), s1)
      | Inr items \<Rightarrow>
      (case build_images items [] of
        (Some err, rs) \<Rightarrow> ((Some err, init_image_locals\<lparr>i_results := rs\<rparr>), s1)
      | (None, rs) \<Rightarrow>
      (case cursors data of
        (err, nxt, prv) \<Rightarrow>
          ((err, init_image_locals\<lparr>i_results := rs, i_next_start := nxt, i_prev_start := prv\<rparr>), s1)))))"

text \<open>\<^verbatim>\<open>images\<close>, for the values of the request arguments \<^verbatim>\<open>q\<close> and \<^verbatim>\<open>start\<close>.\<close>

definition images :: "env \<Rightarrow> string \<Rightarrow> string \<Rightarrow> state \<Rightarrow> (exn + image_page) \<times> state" where
  "images e q_arg start s =
     (let q = strip q_arg;
          start_index = (case int_of_str e start of None \<Rightarrow> 1 | Some i \<Rightarrow> i);
          render = (\<lambda>l s'. \<lparr>i_template = ''images.html'', i_q = q, i_vars = l, i_mode = ''images'',
                                i_count = count (counter s')\<rparr>)
      in if q = [] then (Inr (render init_image_locals s), s)
         else
           (case images_try e q start_index s of
              ((None, l), s1) \<Rightarrow> (Inr (render l s1), s1)
            | ((Some err, l), s1) \<Rightarrow>
                (case handler err of
                   Inl err' \<Rightarrow> (Inl err', s1)
                 | Inr m \<Rightarrow> (Inr (render (l\<lparr>i_error := Some m\<rparr>) s1), s1))))"

section \<open>Notions used in the properties\<close>

text \<open>
  The words of the place-lookup filter: the category of a candidate is the string under
  \<^verbatim>\<open>class\<close>, its importance is the float read from \<^verbatim>\<open>importance\<close> (0 when the field is
  missing), and a candidate passes the filter when the category is in the allow-list and
  the importance is not below 0.3. The first candidate of an answer is the first element of
  the list decoded; \<^verbatim>\<open>user_agent\<close> is the header sent when the contact address is set.
\<close>

definition category :: "pyval \<Rightarrow> string option" where
  "category x = (case x of PDict kvs \<Rightarrow> (case map_of kvs ''class'' of Some (PStr c) \<Rightarrow> Some c | _ \<Rightarrow> None) | _ \<Rightarrow> None)"

definition importance :: "env \<Rightarrow> pyval \<Rightarrow> pyfloat option" where
  "importance e x =
     (case x of
        PDict kvs \<Rightarrow> (case py_float e (dict_get kvs ''importance'' (PInt 0)) of Inl err \<Rightarrow> None | Inr f \<Rightarrow> Some f)
      | _ \<Rightarrow> None)"

definition relevant :: "env \<Rightarrow> pyval \<Rightarrow> bool" where
  "relevant e x =
     (case (category x, importance e x) of
        (Some c, Some f) \<Rightarrow> c \<in> set allowed_classes \<and> \<not> float_less f float_0_3
      | _ \<Rightarrow> False)"

definition first_candidate :: "exn + pyval \<Rightarrow> pyval option" where
  "first_candidate answer = (case answer of Inr (PList (x # xs)) \<Rightarrow> Some x | _ \<Rightarrow> None)"

definition user_agent :: "string \<Rightarrow> string" where
  "user_agent mail = ''MiniMetaSearch/1.0 (contact: '' @ mail @ '')''"

text \<open>
  The words of the summary shortener: a sentence boundary is a whitespace character right
  after one of \<^verbatim>\<open>.!?\<close>. A text is a first sentence followed by separators and sentences.
  It is well formed when no sentence contains a boundary, every sentence before a separator
  ends with one of \<^verbatim>\<open>.!?\<close>, every separator is a non-empty run of whitespace, and no
  sentence after a separator starts with whitespace.
\<close>

fun has_boundary :: "string \<Rightarrow> bool" where
  "has_boundary (a # b # cs) = ((is_punct a \<and> is_space b) \<or> has_boundary (b # cs))"
| "has_boundary _ = False"

fun text_of :: "string \<Rightarrow> (string \<times> string) list \<Rightarrow> string" where
  "text_of s0 [] = s0"
| "text_of s0 ((w, s) # rest) = s0 @ w @ text_of s rest"

fun well_formed :: "string \<Rightarrow> (string \<times> string) list \<Rightarrow> bool" where
  "well_formed s0 [] = (\<not> has_boundary s0)"
| "well_formed s0 ((w, s) # rest) =
     (\<not> has_boundary s0 \<and> s0 \<noteq> [] \<and> is_punct (last s0) \<and>
      w \<noteq> [] \<and> list_all is_space w \<and>
      (s = [] \<or> \<not> is_space (hd s)) \<and> well_formed s rest)"

text \<open>
  The decomposition of any text into its first sentence and the following separators and
  sentences, by the scan of \<^const>\<open>re_split\<close>.
\<close>

function re_parts :: "bool \<Rightarrow> string \<Rightarrow> string \<Rightarrow> string \<times> (string \<times> string) list" where
  "re_parts after_punct piece [] = (piece, [])"
| "re_parts after_punct piece (c # cs) =
     (if after_punct \<and> is_space c
      then (case re_parts False [] (dropWhile is_space cs) of
              (s, rest) \<Rightarrow> (piece, (c # takeWhile is_space cs, s) # rest))
      else re_parts (is_punct c) (piece @ [c]) cs)"
  by pat_completeness auto
termination
  by (relation "measure (\<lambda>(a, p, t). length t)") (auto simp: length_dropWhile_le less_Suc_eq_le)

text \<open>The same sentences, each separated by one space.\<close>

definition single_spaced :: "(string \<times> string) list \<Rightarrow> (string \<times> string) list" where
  "single_spaced rest = map (\<lambda>(w, s). ('' '', s)) rest"

section \<open>Example surroundings\<close>

text \<open>
  A configured process whose search provider answers with one encyclopedia link and a next
  page, and states whose cache is empty, holds a usable entry, or holds an empty payload.
  \<^verbatim>\<open>urlparse\<close> is given on the URLs of the examples. The place provider answers with the
  importances 0.75, 0.5, 0.1 and 0.9 (as the doubles nearest to them), with the double 0.3
  itself, with an integer beyond the floats and with NaN.
\<close>

definition demo_urlparse :: "string \<Rightarrow> exn + string \<times> string" where
  "demo_urlparse u =
     (if take 8 u = ''https://''
      then Inr (takeWhile (\<lambda>c. c \<noteq> CHR ''/'') (drop 8 u), dropWhile (\<lambda>c. c \<noteq> CHR ''/'') (drop 8 u))
      else Inr ([], u))"

definition demo_data :: pyval where
  "demo_data = PDict [(''items'', PList [PDict [(''title'', PStr ''Tour Eiffel''),
        (''link'', PStr ''https://fr.wikipedia.org/wiki/Tour_Eiffel''),
        (''snippet'', PStr ''La tour Eiffel.'')]]),
     (''queries'', PDict [(''nextPage'', PList [PDict [(''startIndex'', PInt 11)]])])]"

definition demo_places :: "string \<Rightarrow> string \<Rightarrow> exn + pyval" where
  "demo_places query agent =
     (if query = ''tour'' then
        Inr (PList [PDict [(''class'', PStr ''tourism''), (''importance'', PFloat (Finite 0.75)),
          (''display_name'', PStr ''Tour Eiffel, Paris''), (''lat'', PStr ''48.858''),
          (''lon'', PStr ''2.294''), (''type'', PStr ''attraction''),
          (''address'', PDict [(''town'', PStr ''Paris''), (''country'', PStr ''France'')])]])
      else if query = ''bakery'' then
        Inr (PList [PDict [(''class'', PStr ''shop''), (''importance'', PFloat (Finite 0.5))]])
      else if query = ''kiosk'' then
        Inr (PList [PDict [(''class'', PStr ''shop''),
          (''importance'', PFloat (Finite (3602879701896397 / 36028797018963968)))]])
      else if query = ''station'' then
        Inr (PList [PDict [(''class'', PStr ''railway''),
          (''importance'', PFloat (Finite (8106479329266893 / 9007199254740992)))]])
      else if query = ''edge'' then
        Inr (PList [PDict [(''class'', PStr ''shop''), (''importance'', PFloat float_0_3)]])
      else if query = ''huge'' then
        Inr (PList [PDict [(''class'', PStr ''shop''), (''importance'', PInt (10 ^ 400))]])
      else if query = ''nan'' then
        Inr (PList [PDict [(''class'', PStr ''shop''), (''importance'', PFloat NaN)]])
      else Inl (LibraryError ''timed out''))"

definition demo_summary :: pyval where
  "demo_summary = PDict [(''title'', PStr ''Tour Eiffel''),
     (''extract'', PStr ''One. Two!  Three? Four. Five.'')]"

definition demo_env :: env where
  "demo_env = \<lparr>API_KEY = Some ''key'', CX = Some ''cx'', MAIL = Some ''me@example.org'',
     time_get = 100, time_set = 101, today = ''2024-05-02'',
     search_api = (\<lambda>p. Inr demo_data),
     osm_api = demo_places,
     wiki_api = (\<lambda>u. Inl (LibraryError ''down'')),
     urlparse = demo_urlparse, unquote = (\<lambda>t. t),
     int_of_str = (\<lambda>t. if t = ''1'' then Some 1 else None), float_of_str = (\<lambda>t. None)\<rparr>"

text \<open>The same process when the summary endpoint answers.\<close>

definition summary_env :: env where
  "summary_env = demo_env\<lparr>wiki_api := (\<lambda>u. Inr demo_summary)\<rparr>"

text \<open>The same process when the search provider answers 403.\<close>

definition forbidden_env :: env where
  "forbidden_env = demo_env\<lparr>search_api := (\<lambda>p. Inl (HTTPError 403 ''Forbidden''))\<rparr>"

text \<open>The same process without the contact address.\<close>

definition no_mail_env :: env where
  "no_mail_env = demo_env\<lparr>MAIL := None\<rparr>"

definition demo_state :: state where
  "demo_state = \<lparr>cache = Map.empty, counter = \<lparr>date = ''2024-05-02'', count = 0\<rparr>, sent = []\<rparr>"

definition empty_hit_state :: state where
  "empty_hit_state = \<lparr>cache = [(''tour|10'', 1, ''web'') \<mapsto> (90, PDict [])],
     counter = \<lparr>date = ''2024-05-02'', count = 5\<rparr>, sent = []\<rparr>"

definition hit_state :: state where
  "hit_state = \<lparr>cache = [(''tour|10'', 1, ''web'') \<mapsto> (90, PDict [(''items'', PList [])])],
     counter = \<lparr>date = ''2024-05-02'', count = 5\<rparr>, sent = []\<rparr>"

text \<open>The result built from the item of the example, and one whose link has no scheme.\<close>

definition demo_item :: result_item where
  "demo_item = \<lparr>r_title = PStr ''Tour Eiffel'', r_link = ''https://fr.wikipedia.org/wiki/Tour_Eiffel'',
     r_displayLink = PStr [], r_snippet = PStr ''La tour Eiffel.'',
     r_favicon = ''https://www.google.com/s2/favicons?sz=32&domain=fr.wikipedia.org''\<rparr>"

definition bare_item :: result_item where
  "bare_item = \<lparr>r_title = PStr ''Paris'', r_link = ''wikipedia.org/wiki/Paris'',
     r_displayLink = PStr [], r_snippet = PStr ''Paris.'',
     r_favicon = ''https://www.google.com/s2/favicons?sz=32&domain=''\<rparr>"

text \<open>Results whose host names no edition: the portal and the bare domain.\<close>

definition portal_item :: result_item where
  "portal_item = \<lparr>r_title = PStr ''Wikipedia'', r_link = ''https://www.wikipedia.org/'',
     r_displayLink = PStr [], r_snippet = PStr ''Wikipedia.'',
     r_favicon = ''https://www.google.com/s2/favicons?sz=32&domain=www.wikipedia.org''\<rparr>"

definition apex_item :: result_item where
  "apex_item = \<lparr>r_title = PStr ''Paris'', r_link = ''https://wikipedia.org/wiki/Paris'',
     r_displayLink = PStr [], r_snippet = PStr ''Paris.'',
     r_favicon = ''https://www.google.com/s2/favicons?sz=32&domain=wikipedia.org''\<rparr>"

lemmas demo_simps = demo_env_def demo_state_def demo_data_def empty_hit_state_def hit_state_def
  cache_key_def clamp_num_def clamp_start_def kind_or_web_def str_int_def digit_char_def
  cache_get_def cache_set_def CACHE_TTL_SEC_def record_call_def Let_def opt_truthy_def
  search_request_def configured_def cache_miss_def calls_of_search_def

lemmas route_simps = home_def home_try_def images_def images_try_def google_search_def
  wikipedia_box_def place_box_def osm_search_def osm_filter_def cursors_def first_start_def
  make_item_def make_image_def summary_box_def place_fields_def and_then_def py_or_def
  dict_get_def of_opt_def init_locals_def init_image_locals_def http_error_text_def
  wiki_url_def wiki_lang_def strip_def is_space_def demo_urlparse_def demo_places_def
  summary_env_def forbidden_env_def no_mail_env_def demo_summary_def allowed_classes_def float_0_3_def

section \<open>Search client, cache and counter: properties\<close>

lemma cache_get_fresh:
  "c k = Some (ts, p) \<Longrightarrow> now - ts \<le> 60 \<Longrightarrow> cache_get now k c = (p, c)"
  by (simp add: cache_get_def CACHE_TTL_SEC_def)

lemma record_call_count: "count (record_call d rc) = (if date rc = d then count rc + 1 else 1)"
  by (simp add: record_call_def)

lemma record_call_date: "date (record_call d rc) = d"
  by (simp add: record_call_def)

lemma google_search_hit:
  assumes "configured e"
    and "cache_get (time_get e) (cache_key q i n k) (cache s) = (p, c1)" "truthy p"
  shows "google_search e q i n k s = (Inr p, s\<lparr>cache := c1\<rparr>)"
  using assms by (simp add: google_search_def configured_def)

lemma google_search_miss_fail:
  assumes "configured e"
    and "cache_get (time_get e) (cache_key q i n k) (cache s) = (p, c1)" "\<not> truthy p"
    and "search_api e (search_request e q i n k) = Inl err"
  shows "google_search e q i n k s = (Inl err, s\<lparr>cache := c1, sent := sent s @ [SearchCall (search_request e q i n k)]\<rparr>)"
  using assms by (simp add: google_search_def configured_def)

lemma google_search_miss_ok:
  assumes "configured e"
    and "cache_get (time_get e) (cache_key q i n k) (cache s) = (p, c1)" "\<not> truthy p"
    and "search_api e (search_request e q i n k) = Inr data"
  shows "google_search e q i n k s =
     (Inr data, s\<lparr>cache := cache_set (time_set e) (cache_key q i n k) data c1,
                  sent := sent s @ [SearchCall (search_request e q i n k)],
                  counter := record_call (today e) (counter s)\<rparr>)"
  using assms by (simp add: google_search_def configured_def)

lemma google_search_sent:
  "sent (snd (google_search e q i n k s)) = sent s \<or>
   sent (snd (google_search e q i n k s)) = sent s @ [SearchCall (search_request e q i n k)]"
  by (simp add: google_search_def Let_def split: prod.splits sum.splits)

lemma calls_of_search_cases:
  "calls_of_search e q i n k s = [] \<or> calls_of_search e q i n k s = [SearchCall (search_request e q i n k)]"
  using google_search_sent [of e q i n k s] by (auto simp: calls_of_search_def)

text \<open>
  The two paths of \<^verbatim>\<open>google_search\<close> in a configured process. A fresh entry with a truthy
  payload is returned and the whole state is unchanged. A call that finds no usable entry
  and whose upstream call succeeds returns the new payload, sends exactly one request and
  records exactly one call.
\<close>

lemma google_search_paths:
  "(configured e \<and> cache s (cache_key q i n k) = Some (ts, p) \<and> time_get e - ts \<le> 60 \<and> truthy p
    \<longrightarrow> google_search e q i n k s = (Inr p, s) \<and> calls_of_search e q i n k s = []) \<and>
   (configured e \<and> cache_miss e q i n k s \<and> search_api e (search_request e q i n k) = Inr data
    \<longrightarrow> fst (google_search e q i n k s) = Inr data \<and>
        calls_of_search e q i n k s = [SearchCall (search_request e q i n k)] \<and>
        counter (snd (google_search e q i n k s)) = record_call (today e) (counter s) \<and>
        (date (counter s) = today e \<longrightarrow>
           count (counter (snd (google_search e q i n k s))) = count (counter s) + 1))"
proof (intro conjI impI)
  assume h: "configured e \<and> cache s (cache_key q i n k) = Some (ts, p) \<and> time_get e - ts \<le> 60 \<and> truthy p"
  then have "cache_get (time_get e) (cache_key q i n k) (cache s) = (p, cache s)"
    by (simp add: cache_get_fresh)
  with h show g: "google_search e q i n k s = (Inr p, s)"
    by (simp add: google_search_hit)
  show "calls_of_search e q i n k s = []"
    by (simp add: calls_of_search_def g)
next
  assume h: "configured e \<and> cache_miss e q i n k s \<and> search_api e (search_request e q i n k) = Inr data"
  obtain p c1 where pc: "cache_get (time_get e) (cache_key q i n k) (cache s) = (p, c1)"
    by (cases "cache_get (time_get e) (cache_key q i n k) (cache s)")
  with h have np: "\<not> truthy p" by (simp add: cache_miss_def)
  have g: "google_search e q i n k s =
     (Inr data, s\<lparr>cache := cache_set (time_set e) (cache_key q i n k) data c1,
                  sent := sent s @ [SearchCall (search_request e q i n k)],
                  counter := record_call (today e) (counter s)\<rparr>)"
    using h pc np by (simp add: google_search_miss_ok)
  show "fst (google_search e q i n k s) = Inr data" by (simp add: g)
  show "calls_of_search e q i n k s = [SearchCall (search_request e q i n k)]"
    by (simp add: g calls_of_search_def)
  show "counter (snd (google_search e q i n k s)) = record_call (today e) (counter s)"
    by (simp add: g)
  assume "date (counter s) = today e"
  then show "count (counter (snd (google_search e q i n k s))) = count (counter s) + 1"
    by (simp add: g record_call_count)
qed

text \<open>
  C3. A fresh entry whose payload is falsy (the empty dictionary, for one) is stored and
  read like any other, but the test at line 64 drops it: the request is sent again, the new
  answer is returned instead of the cached payload, and one more call is counted. In the
  example the entry is ten seconds old and the counter goes from 5 to 6.
\<close>

theorem falsy_payload_refetched:
  "configured e \<and> cache s (cache_key q i n k) = Some (ts, p) \<and> time_get e - ts \<le> 60 \<and>
   \<not> truthy p \<and> search_api e (search_request e q i n k) = Inr data
   \<longrightarrow> fst (cache_get (time_get e) (cache_key q i n k) (cache s)) = p \<and>
       fst (google_search e q i n k s) = Inr data \<and>
       calls_of_search e q i n k s = [SearchCall (search_request e q i n k)] \<and>
       counter (snd (google_search e q i n k s)) = record_call (today e) (counter s)"
proof
  assume h: "configured e \<and> cache s (cache_key q i n k) = Some (ts, p) \<and> time_get e - ts \<le> 60 \<and>
    \<not> truthy p \<and> search_api e (search_request e q i n k) = Inr data"
  then have cg: "cache_get (time_get e) (cache_key q i n k) (cache s) = (p, cache s)"
    by (simp add: cache_get_fresh)
  have g: "google_search e q i n k s =
     (Inr data, s\<lparr>cache := cache_set (time_set e) (cache_key q i n k) data (cache s),
                  sent := sent s @ [SearchCall (search_request e q i n k)],
                  counter := record_call (today e) (counter s)\<rparr>)"
    using h cg by (simp add: google_search_miss_ok)
  show "fst (cache_get (time_get e) (cache_key q i n k) (cache s)) = p \<and>
       fst (google_search e q i n k s) = Inr data \<and>
       calls_of_search e q i n k s = [SearchCall (search_request e q i n k)] \<and>
       counter (snd (google_search e q i n k s)) = record_call (today e) (counter s)"
    by (simp add: cg g calls_of_search_def)
qed

theorem falsy_payload_refetched_witness:
  "configured demo_env \<and>
   cache empty_hit_state (cache_key ''tour'' 1 10 None) = Some (90, PDict []) \<and>
   time_get demo_env - 90 \<le> 60 \<and> \<not> truthy (PDict []) \<and>
   search_api demo_env (search_request demo_env ''tour'' 1 10 None) = Inr demo_data \<and>
   fst (cache_get (time_get demo_env) (cache_key ''tour'' 1 10 None) (cache empty_hit_state)) = PDict [] \<and>
   fst (google_search demo_env ''tour'' 1 10 None empty_hit_state) = Inr demo_data \<and>
   calls_of_search demo_env ''tour'' 1 10 None empty_hit_state
     = [SearchCall (search_request demo_env ''tour'' 1 10 None)] \<and>
   count (counter empty_hit_state) = 5 \<and>
   count (counter (snd (google_search demo_env ''tour'' 1 10 None empty_hit_state))) = 6"
  using falsy_payload_refetched [of demo_env empty_hit_state "''tour''" 1 10 None 90 "PDict []" demo_data]
  by (simp add: demo_simps)

text \<open>
  C4. A \<^verbatim>\<open>set\<close> followed by a \<^verbatim>\<open>get\<close> on the same key, read at most 60 seconds later, returns
  the payload stored and keeps the store; a \<^verbatim>\<open>get\<close> on a key whose entry is older than 60
  seconds returns \<^verbatim>\<open>None\<close> and removes that entry (and only that entry) from the store.
\<close>

theorem cache_set_get_and_expiry:
  "(t' - t \<le> 60 \<longrightarrow> cache_get t' k (cache_set t k v c) = (v, cache_set t k v c)) \<and>
   (c k = Some (ts, p) \<and> 60 < now - ts \<longrightarrow>
      fst (cache_get now k c) = PNone \<and> snd (cache_get now k c) k = None \<and>
      snd (cache_get now k c) = c(k := None))"
  by (simp add: cache_get_def cache_set_def CACHE_TTL_SEC_def)

theorem cache_set_get_and_expiry_witness:
  "(61::real) - 1 \<le> 60 \<and>
   cache_get 61 (''q|10'', 1, ''web'') (cache_set 1 (''q|10'', 1, ''web'') (PDict []) Map.empty)
     = (PDict [], cache_set 1 (''q|10'', 1, ''web'') (PDict []) Map.empty) \<and>
   (cache_set 1 (''q|10'', 1, ''web'') (PStr ''x'') Map.empty) (''q|10'', 1, ''web'') = Some (1, PStr ''x'') \<and>
   (60::real) < 62 - 1 \<and>
   fst (cache_get 62 (''q|10'', 1, ''web'') (cache_set 1 (''q|10'', 1, ''web'') (PStr ''x'') Map.empty)) = PNone \<and>
   snd (cache_get 62 (''q|10'', 1, ''web'') (cache_set 1 (''q|10'', 1, ''web'') (PStr ''x'') Map.empty)) (''q|10'', 1, ''web'') = None"
  using cache_set_get_and_expiry [where t' = 61 and t = 1 and k = "(''q|10'', 1, ''web'')"
      and v = "PDict []" and c = Map.empty]
    cache_set_get_and_expiry [where k = "(''q|10'', 1, ''web'')"
      and c = "cache_set 1 (''q|10'', 1, ''web'') (PStr ''x'') Map.empty"
      and ts = 1 and p = "PStr ''x''" and now = 62]
  by (simp add: cache_set_def)

text \<open>
  C5. A successful upstream call is recorded by one counter update with the date of the day.
  The update leaves the counter at the new date; on the stored date it adds one, on another
  date it restarts from zero and gives 1. So two calls recorded on one date from a count of
  zero give 2, and a call recorded on a later date gives 1.
\<close>

theorem counter_daily_reset:
  "(configured e \<and> cache_miss e q i n k s \<and> search_api e (search_request e q i n k) = Inr data
      \<longrightarrow> counter (snd (google_search e q i n k s)) = record_call (today e) (counter s)) \<and>
   date (record_call d rc) = d \<and>
   count (record_call d rc) = (if date rc = d then count rc + 1 else 1) \<and>
   count (record_call d (record_call d \<lparr>date = d0, count = 0\<rparr>)) = 2 \<and>
   (d' \<noteq> d \<longrightarrow> count (record_call d' (record_call d (record_call d rc))) = 1)"
proof -
  have "counter (snd (google_search e q i n k s)) = record_call (today e) (counter s)"
    if h: "configured e \<and> cache_miss e q i n k s \<and> search_api e (search_request e q i n k) = Inr data"
  proof -
    obtain p c1 where pc: "cache_get (time_get e) (cache_key q i n k) (cache s) = (p, c1)"
      by (cases "cache_get (time_get e) (cache_key q i n k) (cache s)")
    with h have "\<not> truthy p" by (simp add: cache_miss_def)
    with h pc show ?thesis by (simp add: google_search_miss_ok)
  qed
  then show ?thesis
    by (simp add: record_call_count record_call_date)
qed

theorem counter_daily_reset_witness:
  "configured demo_env \<and> cache_miss demo_env ''tour'' 1 10 None demo_state \<and>
   search_api demo_env (search_request demo_env ''tour'' 1 10 None) = Inr demo_data \<and>
   counter (snd (google_search demo_env ''tour'' 1 10 None demo_state)) = \<lparr>date = ''2024-05-02'', count = 1\<rparr> \<and>
   count (record_call ''2024-05-02'' (record_call ''2024-05-02'' \<lparr>date = ''2024-05-01'', count = 0\<rparr>)) = 2 \<and>
   ''2024-05-03'' \<noteq> ''2024-05-02'' \<and>
   count (record_call ''2024-05-03'' (record_call ''2024-05-02''
            (record_call ''2024-05-02'' \<lparr>date = ''2024-05-02'', count = 0\<rparr>))) = 1"
  using counter_daily_reset [of demo_env "''tour''" 1 10 None demo_state demo_data
      "''2024-05-02''" "\<lparr>date = ''2024-05-02'', count = 0\<rparr>" "''2024-05-01''" "''2024-05-03''"]
  by (simp add: demo_simps)

text \<open>
  C6. Every request that \<^verbatim>\<open>google_search\<close> sends carries the clamped start index and page
  size, which lie in [1, 91] and [1, 10]; values inside the interval are kept, 0 becomes 1,
  999 becomes 91, and a page size of 50 becomes 10.
\<close>

theorem search_client_clamps:
  "(\<forall>c \<in> set (calls_of_search e q i n k s).
      \<exists>r. c = SearchCall r \<and> p_start r = clamp_start i \<and> p_num r = clamp_num n) \<and>
   1 \<le> clamp_start i \<and> clamp_start i \<le> 91 \<and> 1 \<le> clamp_num n \<and> clamp_num n \<le> 10 \<and>
   clamp_start i = (if i < 1 then 1 else if 91 < i then 91 else i) \<and>
   clamp_num n = (if n < 1 then 1 else if 10 < n then 10 else n) \<and>
   clamp_start 0 = 1 \<and> clamp_start 999 = 91 \<and> clamp_num 50 = 10"
proof -
  have "\<forall>c \<in> set (calls_of_search e q i n k s).
      \<exists>r. c = SearchCall r \<and> p_start r = clamp_start i \<and> p_num r = clamp_num n"
    using calls_of_search_cases [of e q i n k s] by (auto simp: search_request_def)
  then show ?thesis
    by (simp add: clamp_start_def clamp_num_def)
qed

theorem search_client_clamps_witness:
  "calls_of_search demo_env ''tour'' 0 50 None demo_state =
     [SearchCall \<lparr>p_key = ''key'', p_cx = ''cx'', p_q = ''tour'', p_num = 10, p_start = 1, p_searchType = None\<rparr>] \<and>
   calls_of_search demo_env ''tour'' 999 50 None demo_state =
     [SearchCall \<lparr>p_key = ''key'', p_cx = ''cx'', p_q = ''tour'', p_num = 10, p_start = 91, p_searchType = None\<rparr>]"
  using search_client_clamps [of demo_env "''tour''" 0 50 None demo_state]
    search_client_clamps [of demo_env "''tour''" 999 50 None demo_state]
  by (simp add: google_search_def demo_simps)

text \<open>
  C10. The cache key depends on the start index and the page size through their clamped
  values only: two calls with the same query and kind whose start indices clamp to the same
  number and whose page sizes clamp to the same number have the same key, and the whole call
  behaves the same.
\<close>

theorem cache_key_from_clamped:
  "clamp_start i1 = clamp_start i2 \<Longrightarrow> clamp_num n1 = clamp_num n2 \<Longrightarrow>
   cache_key q i1 n1 k = cache_key q i2 n2 k \<and>
   google_search e q i1 n1 k s = google_search e q i2 n2 k s"
proof -
  assume a: "clamp_start i1 = clamp_start i2" "clamp_num n1 = clamp_num n2"
  have key: "cache_key q i1 n1 k = cache_key q i2 n2 k"
    using a by (simp add: cache_key_def)
  have req: "search_request e q i1 n1 k = search_request e q i2 n2 k"
    using a by (simp add: search_request_def)
  have "google_search e q i1 n1 k s = google_search e q i2 n2 k s"
    unfolding google_search_def key req by (rule refl)
  with key show ?thesis by simp
qed

theorem cache_key_from_clamped_witness:
  "clamp_start 0 = clamp_start 1 \<and> clamp_num 50 = clamp_num 10 \<and>
   cache_key ''tour'' 0 50 None = (''tour|10'', 1, ''web'') \<and>
   cache_key ''tour'' 1 10 None = (''tour|10'', 1, ''web'') \<and>
   google_search demo_env ''tour'' 0 50 None hit_state = google_search demo_env ''tour'' 1 10 None hit_state"
  using cache_key_from_clamped [of 0 1 50 10 "''tour''" None demo_env hit_state]
  by (simp add: demo_simps)

section \<open>Place lookup: properties\<close>

lemma in_str_set_cases:
  "in_str_set cls S = Inr True \<longleftrightarrow> (\<exists>c. cls = PStr c \<and> c \<in> set S)"
  by (cases cls) auto

lemma osm_filter_candidate:
  "osm_filter e (PList (x # xs)) = Inr (if relevant e x then x else PNone) \<or>
   (\<not> relevant e x \<and> (\<exists>err. osm_filter e (PList (x # xs)) = Inl err))"
proof (cases x)
  case (PDict kvs)
  show ?thesis
  proof (cases "dict_get kvs ''class'' PNone")
    case (PStr c)
    then have cat: "category x = Some c"
      using PDict by (auto simp: category_def dict_get_def split: option.splits)
    show ?thesis
    proof (cases "py_float e (dict_get kvs ''importance'' (PInt 0))")
      case (Inl err)
      then show ?thesis using PDict PStr cat
        by (simp add: osm_filter_def and_then_def relevant_def importance_def)
    next
      case (Inr r)
      then show ?thesis using PDict PStr cat
        by (simp add: osm_filter_def and_then_def relevant_def importance_def)
    qed
  qed (use PDict in \<open>auto simp: osm_filter_def and_then_def relevant_def category_def dict_get_def
        split: option.splits pyval.splits\<close>)
qed (auto simp: osm_filter_def and_then_def relevant_def category_def)

lemma osm_filter_no_candidate:
  "first_candidate (Inr data) = None \<Longrightarrow>
   osm_filter e data = Inr PNone \<or> (\<exists>err. osm_filter e data = Inl err)"
proof (cases data)
  case (PList xs)
  assume "first_candidate (Inr data) = None"
  with PList have "xs = []" by (cases xs) (auto simp: first_candidate_def)
  with PList show ?thesis by (simp add: osm_filter_def)
next
  case (PStr cs)
  then show ?thesis by (cases cs) (auto simp: osm_filter_def and_then_def)
qed (auto simp: osm_filter_def and_then_def)

text \<open>
  When the contact address is set, \<^verbatim>\<open>osm_search\<close> never raises: it returns the provider's
  first candidate when that candidate passes the filter (category in the allow-list and
  importance not below 0.3), and \<^verbatim>\<open>None\<close> in every other case: no candidate, a candidate
  that does not pass, a failed request or an answer that cannot be read.
\<close>

lemma place_lookup_filter:
  assumes "MAIL e = Some mail"
  shows "fst (osm_search e q s) =
           Inr (case first_candidate (osm_api e q (user_agent mail)) of
                  Some x \<Rightarrow> if relevant e x then x else PNone
                | None \<Rightarrow> PNone)"
proof -
  have ag: "and_then (str_add ''MiniMetaSearch/1.0 (contact: '' (of_opt (MAIL e))) (\<lambda>h. str_add h (PStr '')''))
      = Inr (user_agent mail)"
    using assms by (simp add: and_then_def of_opt_def user_agent_def)
  have os: "fst (osm_search e q s) =
      (case and_then (osm_api e q (user_agent mail)) (osm_filter e) of
         Inl err \<Rightarrow> Inr PNone | Inr place \<Rightarrow> Inr place)"
    unfolding osm_search_def ag by (simp split: sum.splits)
  show ?thesis
  proof (cases "osm_api e q (user_agent mail)")
    case (Inl err)
    then show ?thesis
      by (simp add: os first_candidate_def and_then_def)
  next
    case (Inr data)
    show ?thesis
    proof (cases "first_candidate (Inr data)")
      case None
      with osm_filter_no_candidate [of data e] Inr show ?thesis
        by (auto simp: os and_then_def)
    next
      case (Some x)
      then obtain xs where d: "data = PList (x # xs)"
        by (auto simp: first_candidate_def split: pyval.splits list.splits)
      with osm_filter_candidate [of e x xs] Inr Some show ?thesis
        by (auto simp: os and_then_def)
    qed
  qed
qed

text \<open>
  The examples: importance 0.5 in the category shop passes, as does the double 0.3 itself;
  0.1 in the category shop and 0.9 in the category railway do not; an importance beyond the
  floats raises \<^verbatim>\<open>OverflowError\<close> inside the block and gives \<^verbatim>\<open>None\<close>; NaN is not below 0.3,
  so the candidate is returned; a failed request gives \<^verbatim>\<open>None\<close>.
\<close>

lemma int_to_float_zero: "int_to_float 0 = Inr (Finite 0)"
  by (simp add: int_to_float_def round_to_double_def bit_length.simps)

lemma int_to_float_huge: "int_to_float (10 ^ 400) = Inl OverflowError"
  by (simp add: int_to_float_def)

lemma place_lookup_examples:
  "fst (osm_search demo_env ''bakery'' demo_state)
     = Inr (PDict [(''class'', PStr ''shop''), (''importance'', PFloat (Finite 0.5))]) \<and>
   fst (osm_search demo_env ''edge'' demo_state)
     = Inr (PDict [(''class'', PStr ''shop''), (''importance'', PFloat float_0_3)]) \<and>
   fst (osm_search demo_env ''kiosk'' demo_state) = Inr PNone \<and>
   fst (osm_search demo_env ''station'' demo_state) = Inr PNone \<and>
   fst (osm_search demo_env ''huge'' demo_state) = Inr PNone \<and>
   fst (osm_search demo_env ''nan'' demo_state)
     = Inr (PDict [(''class'', PStr ''shop''), (''importance'', PFloat NaN)]) \<and>
   fst (osm_search demo_env ''nowhere'' demo_state) = Inr PNone"
  using place_lookup_filter [of demo_env "''me@example.org''" "''bakery''" demo_state]
    place_lookup_filter [of demo_env "''me@example.org''" "''edge''" demo_state]
    place_lookup_filter [of demo_env "''me@example.org''" "''kiosk''" demo_state]
    place_lookup_filter [of demo_env "''me@example.org''" "''station''" demo_state]
    place_lookup_filter [of demo_env "''me@example.org''" "''huge''" demo_state]
    place_lookup_filter [of demo_env "''me@example.org''" "''nan''" demo_state]
    place_lookup_filter [of demo_env "''me@example.org''" "''nowhere''" demo_state]
  by (simp add: demo_env_def demo_places_def user_agent_def first_candidate_def relevant_def
      category_def importance_def dict_get_def allowed_classes_def float_0_3_def
      int_to_float_def)

text \<open>
  C7. The header of the request is built at line 104, before the \<^verbatim>\<open>try\<close> block, from a
  contact address that is read from the environment and never checked. In a process without
  it, \<^verbatim>\<open>osm_search\<close> raises \<^verbatim>\<open>TypeError\<close> for every query and sends nothing, where the place
  lookup is to return nothing rather than raise.
\<close>

theorem place_lookup_raises_without_mail:
  "MAIL e = None \<Longrightarrow> osm_search e q s = (Inl TypeError, s)"
  by (simp add: osm_search_def and_then_def of_opt_def)

theorem place_lookup_raises_without_mail_witness:
  "MAIL no_mail_env = None \<and>
   osm_search no_mail_env ''bakery'' demo_state = (Inl TypeError, demo_state)"
  using place_lookup_raises_without_mail [of no_mail_env "''bakery''" demo_state]
  by (simp add: no_mail_env_def demo_env_def)

section \<open>Summary shortener: properties\<close>

lemma has_boundary_snoc:
  "has_boundary (xs @ [c]) = (has_boundary xs \<or> (xs \<noteq> [] \<and> is_punct (last xs) \<and> is_space c))"
  by (induction xs rule: has_boundary.induct) auto

lemma re_split_parts:
  "re_split p piece t = fst (re_parts p piece t) # map snd (snd (re_parts p piece t))"
  by (induction p piece t rule: re_parts.induct) (auto split: prod.splits)

lemma text_of_parts:
  "text_of (fst (re_parts p piece t)) (snd (re_parts p piece t)) = piece @ t"
  by (induction p piece t rule: re_parts.induct) (auto split: prod.splits)

lemma parts_prefix: "\<exists>u. fst (re_parts p piece t) = piece @ u"
  by (induction p piece t rule: re_parts.induct) (auto split: prod.splits)

lemma parts_head:
  assumes "t = [] \<or> \<not> is_space (hd t)"
  shows "fst (re_parts False [] t) = [] \<or> \<not> is_space (hd (fst (re_parts False [] t)))"
proof (cases t)
  case Nil
  then show ?thesis by simp
next
  case (Cons c cs)
  with assms have "\<not> is_space c" by simp
  moreover obtain u where "fst (re_parts (is_punct c) [c] cs) = [c] @ u"
    using parts_prefix [of "is_punct c" "[c]" cs] by blast
  ultimately show ?thesis using Cons by simp
qed

lemma dropWhile_head: "dropWhile P xs = [] \<or> \<not> P (hd (dropWhile P xs))"
  by (metis hd_dropWhile)

lemma well_formed_parts:
  "\<not> has_boundary piece \<Longrightarrow> p = (piece \<noteq> [] \<and> is_punct (last piece)) \<Longrightarrow>
   well_formed (fst (re_parts p piece t)) (snd (re_parts p piece t))"
proof (induction p piece t rule: re_parts.induct)
  case (1 after_punct piece)
  then show ?case by simp
next
  case (2 after_punct piece c cs)
  show ?case
  proof (cases "after_punct \<and> is_space c")
    case True
    obtain s rest where sr: "re_parts False [] (dropWhile is_space cs) = (s, rest)"
      by (cases "re_parts False [] (dropWhile is_space cs)")
    have wf: "well_formed s rest"
      using "2.IH"(1) [OF True] sr by simp
    have hd: "s = [] \<or> \<not> is_space (hd s)"
      using parts_head [OF dropWhile_head [of is_space cs]] sr by simp
    have ws: "list_all is_space (c # takeWhile is_space cs)"
      using True by (simp add: list_all_iff) (meson set_takeWhileD)
    show ?thesis
      using True sr wf hd ws "2.prems" by simp
  next
    case False
    have nb: "\<not> has_boundary (piece @ [c])"
      using False "2.prems" by (auto simp: has_boundary_snoc)
    have "re_parts after_punct piece (c # cs) = re_parts (is_punct c) (piece @ [c]) cs"
      using False by auto
    then show ?thesis
      using "2.IH"(2) [OF False nb] by simp
  qed
qed

lemma re_split_scan:
  "\<not> has_boundary s \<Longrightarrow> (p \<longrightarrow> s = [] \<or> \<not> is_space (hd s)) \<Longrightarrow>
   re_split p piece (s @ t) = re_split (if s = [] then p else is_punct (last s)) (piece @ s) t"
proof (induction s arbitrary: p piece)
  case Nil
  then show ?case by simp
next
  case (Cons c cs)
  have nb: "\<not> has_boundary cs" using Cons.prems(1) by (cases cs) auto
  have hd: "is_punct c \<longrightarrow> cs = [] \<or> \<not> is_space (hd cs)"
    using Cons.prems(1) by (cases cs) auto
  have "re_split p piece ((c # cs) @ t) = re_split (is_punct c) (piece @ [c]) (cs @ t)"
    using Cons.prems(2) by auto
  also have "\<dots> = re_split (if cs = [] then is_punct c else is_punct (last cs)) ((piece @ [c]) @ cs) t"
    by (rule Cons.IH [OF nb hd])
  finally show ?case by simp
qed

lemma re_split_separator:
  "w \<noteq> [] \<Longrightarrow> list_all is_space w \<Longrightarrow> t = [] \<or> \<not> is_space (hd t) \<Longrightarrow>
   re_split True piece (w @ t) = piece # re_split False [] t"
proof -
  assume a: "w \<noteq> []" "list_all is_space w" "t = [] \<or> \<not> is_space (hd t)"
  then obtain c w' where w: "w = c # w'" by (cases w) auto
  have "dropWhile is_space (w' @ t) = t"
    using a w by (cases t) (auto simp: list_all_iff dropWhile_append)
  with a w show ?thesis by simp
qed

lemma text_of_head:
  "well_formed s rest \<Longrightarrow> s = [] \<or> \<not> is_space (hd s) \<Longrightarrow>
   text_of s rest = [] \<or> \<not> is_space (hd (text_of s rest))"
  by (cases rest) auto

lemma re_split_text_of:
  "well_formed s0 rest \<Longrightarrow> re_split False [] (text_of s0 rest) = s0 # map snd rest"
proof (induction rest arbitrary: s0)
  case Nil
  then show ?case using re_split_scan [of s0 False "[]" "[]"] by simp
next
  case (Cons a rest)
  obtain w s where a: "a = (w, s)" by (cases a)
  from Cons.prems a have wf: "\<not> has_boundary s0" "s0 \<noteq> []" "is_punct (last s0)" "w \<noteq> []"
    "list_all is_space w" "s = [] \<or> \<not> is_space (hd s)" "well_formed s rest"
    by simp_all
  have "re_split False [] (text_of s0 (a # rest)) = re_split False [] (s0 @ (w @ text_of s rest))"
    using a by simp
  also have "\<dots> = re_split True s0 (w @ text_of s rest)"
    using re_split_scan [of s0 False "[]" "w @ text_of s rest"] wf by simp
  also have "\<dots> = s0 # re_split False [] (text_of s rest)"
    using re_split_separator [OF wf(4) wf(5) text_of_head [OF wf(7) wf(6)]] .
  also have "\<dots> = s0 # s # map snd rest"
    using Cons.IH [OF wf(7)] by simp
  finally show ?case using a by simp
qed

lemma well_formed_take: "well_formed s0 rest \<Longrightarrow> well_formed s0 (take n rest)"
proof (induction rest arbitrary: s0 n)
  case Nil
  then show ?case by simp
next
  case (Cons a rest)
  obtain w s where a: "a = (w, s)" by (cases a)
  show ?case
  proof (cases n)
    case 0
    then show ?thesis using Cons.prems a by simp
  next
    case (Suc m)
    then show ?thesis using Cons.prems a Cons.IH [of s m] by simp
  qed
qed

lemma well_formed_single_spaced: "well_formed s0 rest \<Longrightarrow> well_formed s0 (single_spaced rest)"
proof (induction rest arbitrary: s0)
  case Nil
  then show ?case by (simp add: single_spaced_def)
next
  case (Cons a rest)
  obtain w s where a: "a = (w, s)" by (cases a)
  have sp: "is_space CHR '' ''" by (simp add: is_space_def)
  show ?case using Cons.prems a Cons.IH [of s] sp by (simp add: single_spaced_def)
qed

lemma join_text_of: "join '' '' (s0 # map snd rest) = text_of s0 (single_spaced rest)"
proof (induction rest arbitrary: s0)
  case Nil
  then show ?case by (simp add: single_spaced_def)
next
  case (Cons a rest)
  obtain w s where a: "a = (w, s)" by (cases a)
  show ?case using a Cons.IH [of s] by (simp add: single_spaced_def)
qed

lemma shorten_extract_parts:
  "well_formed s0 rest \<Longrightarrow> re_split False [] text = s0 # map snd rest \<Longrightarrow>
   shorten_extract text 3 = join '' '' (s0 # map snd (take 2 rest)) \<and>
   re_split False [] (shorten_extract text 3) = take 3 (re_split False [] text)"
proof -
  assume wf: "well_formed s0 rest" and sp: "re_split False [] text = s0 # map snd rest"
  have "take 3 (s0 # map snd rest) = s0 # take 2 (map snd rest)"
    by (simp add: take_Cons')
  then have t3: "take 3 (s0 # map snd rest) = s0 # map snd (take 2 rest)"
    by (simp add: take_map)
  have "slice_to 3 (re_split False [] text) = take 3 (s0 # map snd rest)"
    by (simp add: slice_to_def sp)
  then have sh: "shorten_extract text 3 = join '' '' (s0 # map snd (take 2 rest))"
    by (simp only: shorten_extract_def t3)
  have "well_formed s0 (single_spaced (take 2 rest))"
    using wf by (simp add: well_formed_take well_formed_single_spaced)
  then have "re_split False [] (text_of s0 (single_spaced (take 2 rest))) = s0 # map snd (single_spaced (take 2 rest))"
    by (rule re_split_text_of)
  moreover have "map snd (single_spaced (take 2 rest)) = map snd (take 2 rest)"
    by (simp add: single_spaced_def split_def)
  ultimately have "re_split False [] (shorten_extract text 3) = s0 # map snd (take 2 rest)"
    by (simp add: sh join_text_of)
  moreover have "take 3 (re_split False [] text) = s0 # map snd (take 2 rest)"
    by (simp only: sp t3)
  ultimately show ?thesis using sh by simp
qed

text \<open>
  C8. For every text, the sentences of the shortened summary are exactly the first three
  sentences of the text (all of them when there are fewer), each with its closing
  punctuation, so the boundaries are still boundaries in the output. Every text is a well
  formed sequence of sentences and separators, and for such a sequence the pieces found are
  its sentences and the summary is the first three joined by one space.
\<close>

theorem shorten_extract_first_three:
  "re_split False [] (shorten_extract text 3) = take 3 (re_split False [] text) \<and>
   (\<exists>s rest'. well_formed s rest' \<and> text_of s rest' = text) \<and>
   (well_formed s0 rest \<longrightarrow>
      re_split False [] (text_of s0 rest) = s0 # map snd rest \<and>
      shorten_extract (text_of s0 rest) 3 = join '' '' (take 3 (s0 # map snd rest)))"
proof (intro conjI impI)
  let ?s = "fst (re_parts False [] text)" and ?r = "snd (re_parts False [] text)"
  have wf: "well_formed ?s ?r" by (rule well_formed_parts) simp_all
  have tx: "text_of ?s ?r = text" using text_of_parts [of False "[]" "text"] by simp
  show "re_split False [] (shorten_extract text 3) = take 3 (re_split False [] text)"
    using shorten_extract_parts [OF wf re_split_parts] by (rule conjunct2)
  show "\<exists>s rest'. well_formed s rest' \<and> text_of s rest' = text"
    using wf tx by blast
next
  assume wf: "well_formed s0 rest"
  then show "re_split False [] (text_of s0 rest) = s0 # map snd rest"
    by (rule re_split_text_of)
  then show "shorten_extract (text_of s0 rest) 3 = join '' '' (take 3 (s0 # map snd rest))"
    by (simp add: shorten_extract_def slice_to_def)
qed

theorem shorten_extract_first_three_witness:
  "well_formed ''One.'' [('' '', ''Two!''), (''  '', ''Three?''), ('' '', ''Four.''), ('' '', ''Five.'')] \<and>
   text_of ''One.'' [('' '', ''Two!''), (''  '', ''Three?''), ('' '', ''Four.''), ('' '', ''Five.'')]
     = ''One. Two!  Three? Four. Five.'' \<and>
   re_split False [] ''One. Two!  Three? Four. Five.'' = [''One.'', ''Two!'', ''Three?'', ''Four.'', ''Five.''] \<and>
   shorten_extract ''One. Two!  Three? Four. Five.'' 3 = ''One. Two! Three?'' \<and>
   re_split False [] ''One. Two! Three?'' = [''One.'', ''Two!'', ''Three?'']"
  using shorten_extract_first_three [of "''One. Two!  Three? Four. Five.''" "''One.''"
      "[('' '', ''Two!''), (''  '', ''Three?''), ('' '', ''Four.''), ('' '', ''Five.'')]"]
  by (simp add: is_space_def is_punct_def)


section \<open>Result composer: properties\<close>

lemma split_on_nonempty: "split_on c s \<noteq> []"
  by (induction s) (auto split: list.splits)

lemma hd_split_on: "hd (split_on c s) = takeWhile (\<lambda>x. x \<noteq> c) s"
  by (induction s) (auto split: list.splits simp: split_on_nonempty)

lemma wiki_lang_eq:
  "wiki_lang domain = (if domain = [] then ''en'' else takeWhile (\<lambda>c. c \<noteq> CHR ''.'') domain)"
  by (simp add: wiki_lang_def hd_split_on)

lemma wikipedia_box_sent:
  assumes "contains (r_link r) ''wikipedia.org''" and "urlparse e (r_link r) = Inr (domain, path)"
  shows "sent (snd (wikipedia_box e (r # rs) s)) = sent s @ [SummaryCall (wiki_url e domain path)]"
  using assms by (simp add: wikipedia_box_def Let_def split: sum.splits)

text \<open>
  When the link of the first result contains \<^verbatim>\<open>wikipedia.org\<close>, the summary is fetched from
  the edition named by the text of the link's host before its first dot, and from the
  edition \<^verbatim>\<open>en\<close> when the link has no host.
\<close>

lemma summary_language:
  assumes "contains (r_link r) ''wikipedia.org''" and "urlparse e (r_link r) = Inr (domain, path)"
  shows "sent (snd (wikipedia_box e (r # rs) s)) =
     sent s @ [SummaryCall (''https://''
        @ (if domain = [] then ''en'' else takeWhile (\<lambda>c. c \<noteq> CHR ''.'') domain)
        @ ''.wikipedia.org/api/rest_v1/page/summary/'' @ unquote e (last (split_on CHR ''/'' path)))]"
  using wikipedia_box_sent [OF assms] by (simp add: wiki_url_def wiki_lang_eq)

lemma summary_language_examples:
  "contains (r_link demo_item) ''wikipedia.org'' \<and>
   urlparse demo_env (r_link demo_item) = Inr (''fr.wikipedia.org'', ''/wiki/Tour_Eiffel'') \<and>
   sent (snd (wikipedia_box demo_env [demo_item] demo_state)) =
     [SummaryCall ''https://fr.wikipedia.org/api/rest_v1/page/summary/Tour_Eiffel''] \<and>
   contains (r_link bare_item) ''wikipedia.org'' \<and>
   urlparse demo_env (r_link bare_item) = Inr ([], ''wikipedia.org/wiki/Paris'') \<and>
   sent (snd (wikipedia_box demo_env [bare_item] demo_state)) =
     [SummaryCall ''https://en.wikipedia.org/api/rest_v1/page/summary/Paris'']"
  using summary_language [of demo_item demo_env "''fr.wikipedia.org''" "''/wiki/Tour_Eiffel''" "[]" demo_state]
    summary_language [of bare_item demo_env "[]" "''wikipedia.org/wiki/Paris''" "[]" demo_state]
  by (simp add: demo_item_def bare_item_def demo_env_def demo_urlparse_def demo_state_def)

text \<open>
  C9. The default \<^verbatim>\<open>en\<close> is taken only for a link without a host. For every host that is
  not empty the edition is the text before the first dot, whether or not it names a
  language: the portal \<^verbatim>\<open>www.wikipedia.org\<close> gives the edition \<^verbatim>\<open>www\<close> and the bare domain
  \<^verbatim>\<open>wikipedia.org\<close> gives the edition \<^verbatim>\<open>wikipedia\<close>, where the language cannot be
  determined and the edition is to be \<^verbatim>\<open>en\<close>.
\<close>

theorem summary_edition_never_defaults:
  assumes "contains (r_link r) ''wikipedia.org''" and "urlparse e (r_link r) = Inr (domain, path)"
    and "domain \<noteq> []"
  shows "sent (snd (wikipedia_box e (r # rs) s)) =
     sent s @ [SummaryCall (''https://'' @ takeWhile (\<lambda>c. c \<noteq> CHR ''.'') domain
        @ ''.wikipedia.org/api/rest_v1/page/summary/'' @ unquote e (last (split_on CHR ''/'' path)))]"
  using wikipedia_box_sent [OF assms(1,2)] assms(3) by (simp add: wiki_url_def wiki_lang_eq)

theorem summary_edition_never_defaults_witness:
  "contains (r_link portal_item) ''wikipedia.org'' \<and>
   urlparse demo_env (r_link portal_item) = Inr (''www.wikipedia.org'', ''/'') \<and>
   ''www.wikipedia.org'' \<noteq> [] \<and>
   sent (snd (wikipedia_box demo_env [portal_item] demo_state)) =
     [SummaryCall ''https://www.wikipedia.org/api/rest_v1/page/summary/''] \<and>
   contains (r_link apex_item) ''wikipedia.org'' \<and>
   urlparse demo_env (r_link apex_item) = Inr (''wikipedia.org'', ''/wiki/Paris'') \<and>
   ''wikipedia.org'' \<noteq> [] \<and>
   sent (snd (wikipedia_box demo_env [apex_item] demo_state)) =
     [SummaryCall ''https://wikipedia.wikipedia.org/api/rest_v1/page/summary/Paris'']"
  using summary_edition_never_defaults [of portal_item demo_env "''www.wikipedia.org''" "''/''" "[]" demo_state]
    summary_edition_never_defaults [of apex_item demo_env "''wikipedia.org''" "''/wiki/Paris''" "[]" demo_state]
  by (simp add: portal_item_def apex_item_def demo_env_def demo_urlparse_def demo_state_def)

text \<open>
  The handler of \<^verbatim>\<open>requests.HTTPError\<close> adds the integer status code to a string, so it
  raises \<^verbatim>\<open>TypeError\<close> for every status code and body, and the exception leaves the route.
\<close>

lemma handler_http: "handler (HTTPError code body) = Inl TypeError"
  by (simp add: http_error_text_def and_then_def)

lemma home_http_error:
  assumes "strip q_arg \<noteq> []"
    and "fst (google_search e (strip q_arg) (case int_of_str e start of None \<Rightarrow> 1 | Some i \<Rightarrow> i) 10 None s)
           = Inl (HTTPError code body)"
  shows "fst (home e q_arg start s) = Inl TypeError"
proof -
  obtain r s1 where g: "google_search e (strip q_arg) (case int_of_str e start of None \<Rightarrow> 1 | Some i \<Rightarrow> i) 10 None s = (r, s1)"
    by (cases "google_search e (strip q_arg) (case int_of_str e start of None \<Rightarrow> 1 | Some i \<Rightarrow> i) 10 None s")
  with assms(2) have r: "r = Inl (HTTPError code body)" by simp
  have "home_try e (strip q_arg) (case int_of_str e start of None \<Rightarrow> 1 | Some i \<Rightarrow> i) s
      = ((Some (HTTPError code body), init_locals), s1)"
    by (simp add: home_try_def g r)
  then show ?thesis using assms(1)
    by (simp add: home_def Let_def http_error_text_def and_then_def)
qed

lemma images_http_error:
  assumes "strip q_arg \<noteq> []"
    and "fst (google_search e (strip q_arg) (case int_of_str e start of None \<Rightarrow> 1 | Some i \<Rightarrow> i) 10 (Some ''image'') s)
           = Inl (HTTPError code body)"
  shows "fst (images e q_arg start s) = Inl TypeError"
proof -
  obtain r s1 where g: "google_search e (strip q_arg) (case int_of_str e start of None \<Rightarrow> 1 | Some i \<Rightarrow> i) 10 (Some ''image'') s = (r, s1)"
    by (cases "google_search e (strip q_arg) (case int_of_str e start of None \<Rightarrow> 1 | Some i \<Rightarrow> i) 10 (Some ''image'') s")
  with assms(2) have r: "r = Inl (HTTPError code body)" by simp
  have "images_try e (strip q_arg) (case int_of_str e start of None \<Rightarrow> 1 | Some i \<Rightarrow> i) s
      = ((Some (HTTPError code body), init_image_locals), s1)"
    by (simp add: images_try_def g r)
  then show ?thesis using assms(1)
    by (simp add: images_def Let_def http_error_text_def and_then_def)
qed

text \<open>
  C1. Whenever the search call of a route raises the HTTP error of a failed response, the
  handler raises \<^verbatim>\<open>TypeError\<close> in its turn, on the web route and on the image route: no page
  is composed, hence no error message that starts with \<^verbatim>\<open>HTTP\<close> and the status code.
\<close>

theorem http_error_handler_raises:
  "(strip q_arg \<noteq> [] \<and>
    fst (google_search e (strip q_arg) (case int_of_str e start of None \<Rightarrow> 1 | Some i \<Rightarrow> i) 10 None s)
      = Inl (HTTPError code body)
    \<longrightarrow> fst (home e q_arg start s) = Inl TypeError) \<and>
   (strip q_arg \<noteq> [] \<and>
    fst (google_search e (strip q_arg) (case int_of_str e start of None \<Rightarrow> 1 | Some i \<Rightarrow> i) 10 (Some ''image'') s)
      = Inl (HTTPError code body)
    \<longrightarrow> fst (images e q_arg start s) = Inl TypeError)"
  using home_http_error [of q_arg e start s code body] images_http_error [of q_arg e start s code body]
  by blast

theorem http_error_handler_raises_witness:
  "strip ''tour'' \<noteq> [] \<and>
   fst (google_search forbidden_env ''tour'' 1 10 None demo_state) = Inl (HTTPError 403 ''Forbidden'') \<and>
   fst (home forbidden_env ''tour'' ''1'' demo_state) = Inl TypeError \<and>
   fst (google_search forbidden_env ''tour'' 1 10 (Some ''image'') demo_state) = Inl (HTTPError 403 ''Forbidden'') \<and>
   fst (images forbidden_env ''tour'' ''1'' demo_state) = Inl TypeError"
  using http_error_handler_raises [of "''tour''" forbidden_env "''1''" demo_state 403 "''Forbidden''"]
  by (simp add: google_search_def strip_def is_space_def forbidden_env_def demo_simps)

text \<open>
  C2. When the search call succeeds, the link of the first result contains
  \<^verbatim>\<open>wikipedia.org\<close> and the summary fetch raises, the page keeps the search results and has
  no encyclopedia box, but the exception reaches the general handler: the page carries
  \<^verbatim>\<open>str(e)\<close> as its error, the place lookup is never sent and both cursors stay \<^verbatim>\<open>None\<close>.
  In the example the answer has a next page and the place lookup would give a box.
\<close>

theorem summary_failure_surfaces:
  assumes "strip q_arg \<noteq> []"
    and "google_search e (strip q_arg) (case int_of_str e start of None \<Rightarrow> 1 | Some i \<Rightarrow> i) 10 None s
           = (Inr (PDict kvs), s1)"
    and "py_iter (py_or (dict_get kvs ''items'' PNone) (PList [])) = Inr items"
    and "build_results e items [] = (None, r # rs)"
    and "contains (r_link r) ''wikipedia.org''"
    and "urlparse e (r_link r) = Inr (domain, path)"
    and "wiki_api e (wiki_url e domain path) = Inl err"
    and "handler err = Inr (StrOf err)"
  shows "home e q_arg start s =
    (Inr \<lparr>template = ''links.html'', pg_q = strip q_arg,
          pg_vars = \<lparr>results = r # rs,
                      info = py_or (dict_get kvs ''searchInformation'' PNone) (PDict []),
                      error = Some (StrOf err), prev_start = PNone, next_start = PNone,
                      wiki_box = None, osm_box = None\<rparr>,
          pg_mode = ''web'', pg_count = count (counter s1)\<rparr>,
     s1\<lparr>sent := sent s1 @ [SummaryCall (wiki_url e domain path)]\<rparr>)"
proof -
  have wb: "wikipedia_box e (r # rs) s1 = (Inl err, s1\<lparr>sent := sent s1 @ [SummaryCall (wiki_url e domain path)]\<rparr>)"
    using assms(5-7) by (simp add: wikipedia_box_def Let_def)
  have "home_try e (strip q_arg) (case int_of_str e start of None \<Rightarrow> 1 | Some i \<Rightarrow> i) s =
      ((Some err, init_locals\<lparr>info := py_or (dict_get kvs ''searchInformation'' PNone) (PDict []),
                              results := r # rs\<rparr>),
       s1\<lparr>sent := sent s1 @ [SummaryCall (wiki_url e domain path)]\<rparr>)"
    using assms(2-4) wb by (simp add: home_try_def and_then_def Let_def)
  then show ?thesis
    using assms(1,8) by (simp add: home_def Let_def init_locals_def)
qed

theorem summary_failure_surfaces_witness:
  "home demo_env ''tour'' ''1'' demo_state =
     (Inr \<lparr>template = ''links.html'', pg_q = ''tour'',
          pg_vars = \<lparr>results = [demo_item], info = PDict [],
                      error = Some (StrOf (LibraryError ''down'')),
                      prev_start = PNone, next_start = PNone, wiki_box = None, osm_box = None\<rparr>,
          pg_mode = ''web'', pg_count = 1\<rparr>,
      \<lparr>cache = [(''tour|10'', 1, ''web'') \<mapsto> (101, demo_data)],
       counter = \<lparr>date = ''2024-05-02'', count = 1\<rparr>,
       sent = [SearchCall (search_request demo_env ''tour'' 1 10 None),
               SummaryCall ''https://fr.wikipedia.org/api/rest_v1/page/summary/Tour_Eiffel'']\<rparr>) \<and>
   cursors demo_data = (None, PInt 11, PNone) \<and>
   fst (place_box demo_env ''tour'' demo_state) =
     Inr (Some \<lparr>o_display_name = PStr ''Tour Eiffel, Paris'', o_lat = PStr ''48.858'',
                 o_lon = PStr ''2.294'', o_type = PStr ''attraction'',
                 o_address = \<lparr>a_road = PNone, a_postcode = PNone, a_city = PStr ''Paris'',
                               a_country = PStr ''France''\<rparr>,
                 o_opening_hours = PNone\<rparr>)"
  using summary_failure_surfaces [of "''tour''" demo_env "''1''" demo_state
      "[(''items'', PList [PDict [(''title'', PStr ''Tour Eiffel''),
        (''link'', PStr ''https://fr.wikipedia.org/wiki/Tour_Eiffel''),
        (''snippet'', PStr ''La tour Eiffel.'')]]),
     (''queries'', PDict [(''nextPage'', PList [PDict [(''startIndex'', PInt 11)]])])]"
      "\<lparr>cache = [(''tour|10'', 1, ''web'') \<mapsto> (101, demo_data)],
       counter = \<lparr>date = ''2024-05-02'', count = 1\<rparr>,
       sent = [SearchCall (search_request demo_env ''tour'' 1 10 None)]\<rparr>"
      "[PDict [(''title'', PStr ''Tour Eiffel''),
        (''link'', PStr ''https://fr.wikipedia.org/wiki/Tour_Eiffel''),
        (''snippet'', PStr ''La tour Eiffel.'')]]"
      demo_item "[]" "''fr.wikipedia.org''" "''/wiki/Tour_Eiffel''" "LibraryError ''down''"]
  by (simp add: route_simps demo_simps demo_item_def)


text \<open>The same request when the summary endpoint answers: both boxes and the next page.\<close>

lemma summary_success_page:
  "fst (home summary_env ''tour'' ''1'' demo_state) =
     Inr \<lparr>template = ''links.html'', pg_q = ''tour'',
          pg_vars = \<lparr>results = [demo_item], info = PDict [], error = None,
                      prev_start = PNone, next_start = PInt 11,
                      wiki_box = Some \<lparr>w_title = PStr ''Tour Eiffel'', w_extract = ''One. Two! Three?'',
                                        w_thumbnail = PNone,
                                        w_link = ''https://fr.wikipedia.org/wiki/Tour_Eiffel''\<rparr>,
                      osm_box = Some \<lparr>o_display_name = PStr ''Tour Eiffel, Paris'', o_lat = PStr ''48.858'',
                 o_lon = PStr ''2.294'', o_type = PStr ''attraction'',
                 o_address = \<lparr>a_road = PNone, a_postcode = PNone, a_city = PStr ''Paris'',
                               a_country = PStr ''France''\<rparr>,
                 o_opening_hours = PNone\<rparr>\<rparr>,
          pg_mode = ''web'', pg_count = 1\<rparr>"
  by (simp add: route_simps demo_simps demo_item_def shorten_extract_def slice_to_def is_punct_def)


end
